theory Spec2Isabelle
  imports Main "HOL-Library.AList" "HOL-Library.Word"
begin

section \<open>Memory blocks\<close>

text \<open>
  The memory manager keeps named blocks of bytes.  A block (class \<open>MemoryBlock\<close>) owns a
  configuration object, shared with the manager's metadata table, and a byte buffer.
  JavaScript numbers that count bytes, offsets and versions are integers in every run the
  model covers; they are \<open>nat\<close> where the codec rejects negative values and \<open>int\<close>
  otherwise.  \<open>Date.now()\<close> is a parameter \<open>now\<close> of every operation that reads the clock.
\<close>

type_synonym app_id = string
type_synonym byte = "8 word"

datatype BlockPermission = READ | WRITE | EXECUTE

datatype mem_error =
    NotInitialized      \<comment> \<open>\<open>Memory block not initialized\<close>\<close>
  | ReadBeyondBounds    \<comment> \<open>\<open>Read beyond buffer bounds\<close>\<close>
  | WriteBeyondBounds   \<comment> \<open>\<open>Write beyond buffer bounds\<close>\<close>
  | BlockNotFound       \<comment> \<open>\<open>Memory block '...' not found\<close>\<close>
  | BlockIdRequired     \<comment> \<open>\<open>block_id is required\<close>\<close>
  | WriteFileFailed     \<comment> \<open>rejection of \<open>fs.writeFile\<close>\<close>

record block_config =
  block_id :: string
  size :: nat
  permissions :: "(BlockPermission \<times> app_id list) list option"
  version :: int
  updated :: int

record MemoryBlock =
  config :: block_config
  buffer :: "byte list option"
  usesMmap :: bool
  lastAccessed :: int

text \<open>\<open>Buffer.slice(start, end)\<close> for a start that is not negative.\<close>

definition slice :: "'a list \<Rightarrow> nat \<Rightarrow> nat \<Rightarrow> 'a list" where
  "slice xs start end = take (end - start) (drop start xs)"

text \<open>\<open>data.copy(buffer, offset)\<close> when the data fits, which \<open>write\<close> has checked.\<close>

definition copy :: "byte list \<Rightarrow> byte list \<Rightarrow> nat \<Rightarrow> byte list" where
  "copy data buf offset = take offset buf @ data @ drop (offset + length data) buf"

text \<open>
  \<open>MemoryBlock._checkAccess\<close>: the answer is whether the wildcard is listed for the
  permission.  It has no parameter for the requesting app.
\<close>

definition checkAccess :: "MemoryBlock \<Rightarrow> BlockPermission \<Rightarrow> bool" where
  "checkAccess b permission =
     (let perms = (case permissions (config b) of None \<Rightarrow> [] | Some p \<Rightarrow> p);
          allowedApps = (case map_of perms permission of None \<Rightarrow> [] | Some l \<Rightarrow> l)
      in ''*'' \<in> set allowedApps)"

text \<open>
  \<open>MemoryBlock.read(offset = 0, length = null)\<close>.  The source calls \<open>_checkAccess\<close> as a
  statement and drops what it returns.  A length of \<open>0\<close> is falsy and reads to the end,
  like \<open>null\<close>.
\<close>

definition read :: "int \<Rightarrow> MemoryBlock \<Rightarrow> nat \<Rightarrow> nat option
    \<Rightarrow> MemoryBlock \<times> (mem_error + byte list)" where
  "read now b offset len =
     (let dropped = checkAccess b READ;
          b1 = b\<lparr>lastAccessed := now\<rparr>
      in case buffer b1 of
           None \<Rightarrow> (b1, Inl NotInitialized)
         | Some buf \<Rightarrow>
             (let readLength =
                    (case len of
                       None \<Rightarrow> int (length buf) - int offset
                     | Some l \<Rightarrow> if l = 0 then int (length buf) - int offset else int l)
              in if int offset + readLength > int (length buf)
                 then (b1, Inl ReadBeyondBounds)
                 else (b1, Inr (slice buf offset (nat (int offset + readLength))))))"

text \<open>
  \<open>MemoryBlock.write(offset, data)\<close>, named \<open>write_block\<close> because \<open>write\<close> is a
  keyword of the proof language.  \<open>io_ok\<close> says whether \<open>fs.writeFile\<close> resolves;
  it is consulted only for a block that is not memory-mapped.  When it rejects, the bytes are
  already copied and the version is not yet incremented.
\<close>

definition write_block :: "int \<Rightarrow> bool \<Rightarrow> MemoryBlock \<Rightarrow> nat \<Rightarrow> byte list
    \<Rightarrow> MemoryBlock \<times> (mem_error + bool)" where
  "write_block now io_ok b offset data =
     (let dropped = checkAccess b WRITE;
          b1 = b\<lparr>lastAccessed := now\<rparr>
      in case buffer b1 of
           None \<Rightarrow> (b1, Inl NotInitialized)
         | Some buf \<Rightarrow>
             if offset + length data > length buf then (b1, Inl WriteBeyondBounds)
             else
               (let b2 = b1\<lparr>buffer := Some (copy data buf offset)\<rparr>
                in if \<not> usesMmap b2 \<and> \<not> io_ok then (b2, Inl WriteFileFailed)
                   else (b2\<lparr>config := (config b2)\<lparr>version := version (config b2) + 1,
                                                    updated := now\<rparr>\<rparr>,
                         Inr True)))"

text \<open>A run of writes on one block, stopping at the first that fails.\<close>

fun write_all :: "int \<Rightarrow> bool \<Rightarrow> MemoryBlock \<Rightarrow> (nat \<times> byte list) list
    \<Rightarrow> MemoryBlock \<times> (mem_error + bool)" where
  "write_all now io_ok b [] = (b, Inr True)"
| "write_all now io_ok b ((offset, data) # ws) =
     (case write_block now io_ok b offset data of
        (b1, Inl e) \<Rightarrow> (b1, Inl e)
      | (b1, Inr ok) \<Rightarrow> write_all now io_ok b1 ws)"

subsection \<open>The manager\<close>

text \<open>
  \<open>blocks\<close> is the manager's \<open>Map\<close> of attached block instances, in insertion order.
  The metadata table holds the same configuration object as the instance, so the version the
  manager reports for an attached block is the one the instance increments.

  Modelled from the spec: the durable store (\<open>persistence.getMemoryBlock\<close>) is not among the
  sources.  \<open>stored\<close> gives, for a block id the store knows, the instance that loading its
  metadata and initialising its backing storage produces.
\<close>

record MemoryManager =
  blocks :: "(string \<times> MemoryBlock) list"
  stored :: "(string \<times> MemoryBlock) list"
  totalReads :: nat
  totalWrites :: nat

definition attachMemoryBlock :: "MemoryManager \<Rightarrow> string
    \<Rightarrow> MemoryManager \<times> (mem_error + MemoryBlock)" where
  "attachMemoryBlock m bid =
     (if bid = [] then (m, Inl BlockIdRequired)
      else case map_of (blocks m) bid of
             Some b \<Rightarrow> (m, Inr b)
           | None \<Rightarrow>
               (case map_of (stored m) bid of
                  Some b \<Rightarrow> (m\<lparr>blocks := AList.update bid b (blocks m)\<rparr>, Inr b)
                | None \<Rightarrow> (m, Inl BlockNotFound)))"

text \<open>Writing a mutated instance back: the instance is an object shared with the table.\<close>

definition put_block :: "MemoryManager \<Rightarrow> string \<Rightarrow> MemoryBlock \<Rightarrow> MemoryManager" where
  "put_block m bid b = m\<lparr>blocks := AList.update bid b (blocks m)\<rparr>"

definition writeMemoryBlock :: "int \<Rightarrow> bool \<Rightarrow> MemoryManager \<Rightarrow> string \<Rightarrow> nat \<Rightarrow> byte list
    \<Rightarrow> MemoryManager \<times> (mem_error + bool)" where
  "writeMemoryBlock now io_ok m bid offset data =
     (case attachMemoryBlock m bid of
        (m1, Inl e) \<Rightarrow> (m1, Inl e)
      | (m1, Inr b) \<Rightarrow>
          (let m2 = m1\<lparr>totalWrites := totalWrites m1 + 1\<rparr>;
               (b1, r) = write_block now io_ok b offset data
           in (put_block m2 bid b1, r)))"

datatype cas_result = CasSuccess "byte list" | CasFailure "byte list"

definition compareAndSwap :: "int \<Rightarrow> bool \<Rightarrow> MemoryManager \<Rightarrow> string \<Rightarrow> nat
    \<Rightarrow> byte list \<Rightarrow> byte list \<Rightarrow> MemoryManager \<times> (mem_error + cas_result)" where
  "compareAndSwap now io_ok m bid offset expected new_value =
     (case attachMemoryBlock m bid of
        (m1, Inl e) \<Rightarrow> (m1, Inl e)
      | (m1, Inr b) \<Rightarrow>
          (case read now b offset (Some (length expected)) of
             (b1, Inl e) \<Rightarrow> (put_block m1 bid b1, Inl e)
           | (b1, Inr currentData) \<Rightarrow>
               if currentData \<noteq> expected
               then (put_block m1 bid b1, Inr (CasFailure currentData))
               else
                 (case write_block now io_ok b1 offset new_value of
                    (b2, Inl e) \<Rightarrow> (put_block m1 bid b2, Inl e)
                  | (b2, Inr ok) \<Rightarrow> (put_block m1 bid b2, Inr (CasSuccess expected)))))"

text \<open>
  \<open>getBlockVersion\<close>, through \<open>getMemoryBlock\<close>: the version in the metadata in memory,
  else in the durable store's, else \<open>null\<close>; an empty id is an error.
\<close>

definition getBlockVersion :: "MemoryManager \<Rightarrow> string \<Rightarrow> mem_error + int option" where
  "getBlockVersion m bid =
     (if bid = [] then Inl BlockIdRequired
      else case map_of (blocks m) bid of
             Some b \<Rightarrow> Inr (Some (version (config b)))
           | None \<Rightarrow>
               (case map_of (stored m) bid of
                  Some b \<Rightarrow> Inr (Some (version (config b)))
                | None \<Rightarrow> Inr None))"

section \<open>Connections and messages\<close>

text \<open>
  A connection object has an \<open>isActive\<close> flag and a socket.  \<open>Connection.send\<close> answers
  \<open>false\<close> when the connection is not active or when serialising or writing the frame
  throws; \<open>socketOk\<close> says that neither throws.  Connection objects are shared between the
  registry and the router's records, so they live in a store indexed by connection id, and
  every frame written is appended to an outbox.

  Messages are the objects of the wire protocol, one record per kind with the fields the
  server reads.  An absent field is \<open>None\<close>; payloads and results are opaque.
  The fresh \<open>id\<close> and the \<open>timestamp\<close> that the server puts on a message it creates are
  left out.  Names are ASCII strings.

  A metadata object is a list of keys with their values, in the order of the object's keys;
  of the values it has the strings, the booleans and \<open>undefined\<close>.
\<close>

type_synonym conn_id = nat
type_synonym pool_name = string
type_synonym trigger_name = string

datatype meta_value = MString string | MBool bool | MUndefined

type_synonym metadata = "(string \<times> meta_value) list"

record Connection =
  isActive :: bool
  socketOk :: bool

record trigger_msg =
  t_id :: string
  origin :: "app_id option"
  destination :: "app_id option"
  t_pool :: "pool_name option"
  trigger :: "trigger_name option"
  process :: "trigger_name option"
  ttl :: "int option"
  payload :: string

record response_msg =
  r_id :: string
  in_reply_to :: "string option"
  correlation_id :: "string option"
  status :: string
  result :: string

record error_msg =
  e_in_reply_to :: "string option"
  e_correlation_id :: "string option"
  error_text :: string
  error_code :: string

record handshake_msg =
  h_id :: "string option"
  h_app_id :: string
  h_pools :: "pool_name list option"
  h_triggers :: "trigger_name list option"
  h_metadata :: "metadata option"

record handshake_ack =
  ack_correlation_id :: "string option"
  ack_status :: string
  assigned_app_id :: app_id
  assigned_pools :: "pool_name list"
  assigned_triggers :: "trigger_name list"
  assigned_rehydrated :: bool

datatype message =
    Handshake handshake_msg
  | HandshakeAck handshake_ack
  | Trigger trigger_msg
  | Response response_msg
  | Error error_msg

text \<open>JavaScript truthiness of an optional string and of an optional number.\<close>

definition truthy :: "string option \<Rightarrow> bool" where
  "truthy x = (case x of None \<Rightarrow> False | Some v \<Rightarrow> v \<noteq> [])"

definition truthy_num :: "int option \<Rightarrow> bool" where
  "truthy_num x = (case x of None \<Rightarrow> False | Some v \<Rightarrow> v \<noteq> 0)"

text \<open>\<open>ProtocolParser.createError(originalMessage, error, errorCode)\<close> and its wrappers.\<close>

definition createError :: "string option \<Rightarrow> string \<Rightarrow> string \<Rightarrow> message" where
  "createError original_id err errorCode =
     Error \<lparr>e_in_reply_to = None, e_correlation_id = original_id,
            error_text = err, error_code = errorCode\<rparr>"

definition createTimeoutError :: "string option \<Rightarrow> message" where
  "createTimeoutError original_id = createError original_id ''Request timeout'' ''TIMEOUT''"

definition createNotFoundError :: "string option \<Rightarrow> string \<Rightarrow> message" where
  "createNotFoundError original_id resource =
     createError original_id (''Resource '' @ [CHR 39] @ resource @ [CHR 39] @ '' not found'')
       ''NOT_FOUND''"

section \<open>Pool manager\<close>

text \<open>
  The character class \<open>[a-zA-Z0-9._-]\<close> of pool names and app ids; trigger names also
  allow a colon.
\<close>

definition name_char :: "char \<Rightarrow> bool" where
  "name_char c =
     (c \<in> set ''abcdefghijklmnopqrstuvwxyzABCDEFGHIJKLMNOPQRSTUVWXYZ0123456789._-'')"

definition trigger_char :: "char \<Rightarrow> bool" where
  "trigger_char c = (name_char c \<or> c = CHR '':'')"

datatype AccessPolicy = PolicyRead | PolicyWrite | PolicyExecute | PolicyAdmin

record pool_config =
  name :: pool_name
  ptype :: string
  encrypted :: bool
  owners :: "app_id list"
  policies :: "(AccessPolicy \<times> app_id list) list option"
  maxMemoryBlocks :: int
  maxTriggers :: int
  security_prepared :: bool

text \<open>
  The \<open>properties\<close> and the \<open>metadata\<close> argument of \<open>createPool\<close>: objects whose keys
  the source spreads into the configuration, \<open>None\<close> for a key the object does not have.
  Of the keys that are no field of \<open>pool_config\<close> the model keeps none.
\<close>

record pool_properties =
  prop_name :: "pool_name option"
  prop_type :: "string option"
  prop_encrypted :: "bool option"
  prop_owners :: "app_id list option"
  prop_policies :: "(AccessPolicy \<times> app_id list) list option"
  prop_maxMemoryBlocks :: "int option"
  prop_maxTriggers :: "int option"

datatype pool_error =
    PoolNameRequired
  | PoolAlreadyExists pool_name
  | InvalidPoolType string
  | InvalidPoolNameChars
  | PoolNameTooLong
  | InvalidConfigPoolType string
  | EncryptedFlagRequired
  | InvalidMaxMemoryBlocks
  | InvalidMaxTriggers
  | EncryptionInitFailed pool_name string
  | AssignmentToConstant
  | PoolNameMissing
  | AppIdRequired
  | PoolNameArgRequired
  | PoolNotFound pool_name
  | PoolNotLoaded pool_name
  | EncryptedAccessDenied pool_name
  | AdminPermissionRequired pool_name
  | PolicyAccessDenied app_id AccessPolicy pool_name

definition quoted :: "string \<Rightarrow> string" where
  "quoted x = [CHR 39] @ x @ [CHR 39]"

definition policy_name :: "AccessPolicy \<Rightarrow> string" where
  "policy_name p =
     (case p of PolicyRead \<Rightarrow> ''read'' | PolicyWrite \<Rightarrow> ''write''
      | PolicyExecute \<Rightarrow> ''execute'' | PolicyAdmin \<Rightarrow> ''admin'')"

text \<open>The message of each error the pool manager throws.\<close>

definition pool_error_text :: "pool_error \<Rightarrow> string" where
  "pool_error_text e =
     (case e of
        PoolNameRequired \<Rightarrow> ''Pool name is required and must be a string''
      | PoolAlreadyExists p \<Rightarrow> ''Pool '' @ quoted p @ '' already exists''
      | InvalidPoolType t \<Rightarrow>
          ''Invalid pool type: '' @ t @ ''. Must be one of: local, global, encrypted''
      | InvalidPoolNameChars \<Rightarrow>
          ''Pool name contains invalid characters. Only alphanumeric, dots, underscores, and hyphens are allowed''
      | PoolNameTooLong \<Rightarrow> ''Pool name cannot exceed 64 characters''
      | InvalidConfigPoolType t \<Rightarrow> ''Invalid pool type: '' @ t
      | EncryptedFlagRequired \<Rightarrow> ''Encrypted pool type requires encrypted flag to be true''
      | InvalidMaxMemoryBlocks \<Rightarrow> ''maxMemoryBlocks must be a positive number''
      | InvalidMaxTriggers \<Rightarrow> ''maxTriggers must be a positive number''
      | EncryptionInitFailed p reason \<Rightarrow>
          ''Failed to initialize encryption for pool '' @ quoted p @ '': '' @ reason
      | AssignmentToConstant \<Rightarrow> ''Assignment to constant variable.''
      | PoolNameMissing \<Rightarrow> ''Pool name is required''
      | AppIdRequired \<Rightarrow> ''app_id is required and must be a string''
      | PoolNameArgRequired \<Rightarrow> ''pool_name is required and must be a string''
      | PoolNotFound p \<Rightarrow> ''Pool '' @ quoted p @ '' not found''
      | PoolNotLoaded p \<Rightarrow> ''Pool '' @ quoted p @ '' could not be loaded''
      | EncryptedAccessDenied p \<Rightarrow>
          ''Access denied to encrypted pool '' @ quoted p @ '': insufficient encryption keys''
      | AdminPermissionRequired p \<Rightarrow>
          ''Access denied to encrypted pool '' @ quoted p
            @ '': admin permission required when security module unavailable''
      | PolicyAccessDenied a perm p \<Rightarrow>
          ''Access denied: '' @ a @ '' does not have '' @ policy_name perm
            @ '' permission for pool '' @ quoted p)"

text \<open>
  The security module is an optional collaborator; the model takes the answers of the two
  methods the pool manager calls.  \<open>prepareEncryptedPool_error\<close> is \<open>None\<close> when
  \<open>security.prepareEncryptedPool\<close> resolves and the message of its error when it rejects.
  Its key store is outside the model.
\<close>

record Security =
  prepareEncryptedPool_error :: "pool_name \<Rightarrow> string option"
  checkPoolAccess :: "app_id \<Rightarrow> pool_name \<Rightarrow> AccessPolicy \<Rightarrow> bool"

text \<open>
  \<open>pools\<close> maps a pool name to the member ids of its \<open>Pool\<close> instance;
  \<open>poolMetadata\<close>, \<open>appPoolMembership\<close> and \<open>poolMembership\<close> are the manager's other maps.
  JavaScript \<open>Map\<close>s and \<open>Set\<close>s keep insertion order: maps are association lists updated
  with \<open>AList.update\<close>, sets are lists without repetition.

  Modelled from the spec: the durable store (\<open>persistence.createPool\<close>,
  \<open>persistence.getPool\<close>) is not among the sources.  \<open>persistedPools\<close> is its pool table,
  a key/value store read and written by primary key.
\<close>

record PoolManager =
  pools :: "(pool_name \<times> app_id list) list"
  poolMetadata :: "(pool_name \<times> pool_config) list"
  appPoolMembership :: "(app_id \<times> pool_name list) list"
  poolMembership :: "(pool_name \<times> app_id list) list"
  persistedPools :: "(pool_name \<times> pool_config) list"

definition set_add :: "'a \<Rightarrow> 'a list \<Rightarrow> 'a list" where
  "set_add x xs = (if x \<in> set xs then xs else xs @ [x])"

definition validPoolTypes :: "string list" where
  "validPoolTypes = [''local'', ''global'', ''encrypted'']"

definition validatePoolType :: "string \<Rightarrow> bool" where
  "validatePoolType t = (t \<in> set validPoolTypes)"

definition getDefaultPolicies :: "(AccessPolicy \<times> app_id list) list" where
  "getDefaultPolicies =
     [(PolicyRead, [''*'']), (PolicyWrite, [''*'']), (PolicyExecute, [''*'']), (PolicyAdmin, [])]"

text \<open>\<open>_validatePoolConfig\<close>: the first check that fails, if any.\<close>

definition validatePoolConfig :: "pool_config \<Rightarrow> pool_error option" where
  "validatePoolConfig cfg =
     (if name cfg = [] then Some PoolNameRequired
      else if \<not> list_all name_char (name cfg) then Some InvalidPoolNameChars
      else if length (name cfg) > 64 then Some PoolNameTooLong
      else if \<not> validatePoolType (ptype cfg) then Some (InvalidConfigPoolType (ptype cfg))
      else if ptype cfg = ''encrypted'' \<and> \<not> encrypted cfg then Some EncryptedFlagRequired
      else if maxMemoryBlocks cfg \<noteq> 0 \<and> maxMemoryBlocks cfg < 1 then Some InvalidMaxMemoryBlocks
      else if maxTriggers cfg \<noteq> 0 \<and> maxTriggers cfg < 1 then Some InvalidMaxTriggers
      else None)"

text \<open>
  \<open>_prepareEncryptedPool\<close>: with a security module its \<open>prepareEncryptedPool\<close> may reject;
  otherwise the configuration comes back extended.
\<close>

definition prepareEncryptedPool :: "Security option \<Rightarrow> pool_name \<Rightarrow> pool_config
    \<Rightarrow> pool_error + pool_config" where
  "prepareEncryptedPool sec poolName poolConfig =
     (if \<not> encrypted poolConfig then Inr poolConfig
      else case sec of
             Some sm \<Rightarrow>
               (case prepareEncryptedPool_error sm poolName of
                  None \<Rightarrow> Inr (poolConfig\<lparr>security_prepared := True\<rparr>)
                | Some reason \<Rightarrow> Inl (EncryptionInitFailed poolName reason))
           | None \<Rightarrow> Inr (poolConfig\<lparr>security_prepared := True\<rparr>))"

text \<open>
  A key of the object literal \<open>{key: v, ...properties, ...metadata}\<close>: the value of
  \<open>metadata\<close> if it has the key, else the one of \<open>properties\<close> if it has the key, else
  \<open>v\<close>.
\<close>

definition spread :: "'a \<Rightarrow> 'a option \<Rightarrow> 'a option \<Rightarrow> 'a" where
  "spread v p m = (case m of Some x \<Rightarrow> x | None \<Rightarrow> (case p of Some x \<Rightarrow> x | None \<Rightarrow> v))"

text \<open>
  \<open>createPool(name, type, encrypted, properties, metadata)\<close>.  \<open>poolConfig\<close> is declared
  with \<open>const\<close>; for an encrypted pool the source evaluates \<open>_prepareEncryptedPool\<close> and
  then assigns its result to that binding, which throws.  The checks and the maps use the
  arguments \<open>name\<close>, \<open>type\<close> and \<open>encrypted\<close>; the configuration has what the spread
  leaves under these keys.
\<close>

definition createPool :: "Security option \<Rightarrow> PoolManager \<Rightarrow> pool_name \<Rightarrow> string \<Rightarrow> bool
    \<Rightarrow> pool_properties \<Rightarrow> pool_properties \<Rightarrow> PoolManager \<times> (pool_error + pool_config)" where
  "createPool sec pm nm tp encrypted0 properties metadata =
     (if nm = [] then (pm, Inl PoolNameRequired)
      else if map_of (pools pm) nm \<noteq> None then (pm, Inl (PoolAlreadyExists nm))
      else if \<not> validatePoolType tp then (pm, Inl (InvalidPoolType tp))
      else
        (let enc = (if tp = ''encrypted'' \<and> \<not> encrypted0 then True else encrypted0);
             poolConfig =
               \<lparr>name = spread nm (prop_name properties) (prop_name metadata),
                ptype = spread tp (prop_type properties) (prop_type metadata),
                encrypted = spread enc (prop_encrypted properties) (prop_encrypted metadata),
                owners = spread [] (prop_owners properties) (prop_owners metadata),
                policies = Some (spread getDefaultPolicies (prop_policies properties)
                                   (prop_policies metadata)),
                maxMemoryBlocks = spread 1000 (prop_maxMemoryBlocks properties)
                                    (prop_maxMemoryBlocks metadata),
                maxTriggers = spread 10000 (prop_maxTriggers properties)
                                (prop_maxTriggers metadata),
                security_prepared = False\<rparr>
         in case validatePoolConfig poolConfig of
              Some e \<Rightarrow> (pm, Inl e)
            | None \<Rightarrow>
                if enc then
                  (case prepareEncryptedPool sec nm poolConfig of
                     Inl e \<Rightarrow> (pm, Inl e)
                   | Inr prepared \<Rightarrow> (pm, Inl AssignmentToConstant))
                else
                  (pm\<lparr>persistedPools := AList.update nm poolConfig (persistedPools pm),
                      pools := AList.update nm [] (pools pm),
                      poolMetadata := AList.update nm poolConfig (poolMetadata pm),
                      poolMembership := AList.update nm [] (poolMembership pm)\<rparr>,
                   Inr poolConfig)))"

text \<open>\<open>hasPool\<close> and \<open>getPool\<close>; the latter loads a pool that only the store knows.\<close>

definition hasPool :: "PoolManager \<Rightarrow> pool_name \<Rightarrow> bool" where
  "hasPool pm poolName =
     (map_of (pools pm) poolName \<noteq> None \<or> map_of (persistedPools pm) poolName \<noteq> None)"

definition getPool :: "PoolManager \<Rightarrow> pool_name
    \<Rightarrow> PoolManager \<times> (pool_error + pool_config option)" where
  "getPool pm nm =
     (if nm = [] then (pm, Inl PoolNameMissing)
      else if map_of (pools pm) nm \<noteq> None then (pm, Inr (map_of (poolMetadata pm) nm))
      else case map_of (persistedPools pm) nm of
             Some persistedPool \<Rightarrow>
               (pm\<lparr>pools := AList.update nm [] (pools pm),
                   poolMetadata := AList.update nm persistedPool (poolMetadata pm),
                   poolMembership := AList.update nm [] (poolMembership pm)\<rparr>,
                Inr (Some persistedPool))
           | None \<Rightarrow> (pm, Inr None))"

definition policy_apps :: "pool_config \<Rightarrow> AccessPolicy \<Rightarrow> app_id list" where
  "policy_apps metadata permission =
     (case map_of (case policies metadata of None \<Rightarrow> getDefaultPolicies | Some p \<Rightarrow> p)
             permission of
        None \<Rightarrow> [] | Some l \<Rightarrow> l)"

text \<open>\<open>_checkPoolAccess\<close>: the error it throws, if any.\<close>

definition checkPoolAccess_pm :: "Security option \<Rightarrow> PoolManager \<Rightarrow> app_id \<Rightarrow> pool_name
    \<Rightarrow> AccessPolicy \<Rightarrow> pool_error option" where
  "checkPoolAccess_pm sec pm appId poolName requiredPermission =
     (case map_of (poolMetadata pm) poolName of
        None \<Rightarrow> Some (PoolNotFound poolName)
      | Some metadata \<Rightarrow>
          (let encrypted_denied =
                 (if encrypted metadata then
                    (case sec of
                       Some sm \<Rightarrow>
                         if checkPoolAccess sm appId poolName requiredPermission then None
                         else Some (EncryptedAccessDenied poolName)
                     | None \<Rightarrow>
                         if appId \<in> set (policy_apps metadata PolicyAdmin) then None
                         else Some (AdminPermissionRequired poolName))
                  else None)
           in case encrypted_denied of
                Some e \<Rightarrow> Some e
              | None \<Rightarrow>
                  (let allowedApps = policy_apps metadata requiredPermission
                   in if ''*'' \<notin> set allowedApps \<and> appId \<notin> set allowedApps
                      then Some (PolicyAccessDenied appId requiredPermission poolName)
                      else None)))"

definition map_get_list :: "('k \<times> 'v list) list \<Rightarrow> 'k \<Rightarrow> 'v list" where
  "map_get_list m k = (case map_of m k of None \<Rightarrow> [] | Some l \<Rightarrow> l)"

definition addAppToPool :: "Security option \<Rightarrow> PoolManager \<Rightarrow> app_id \<Rightarrow> pool_name
    \<Rightarrow> PoolManager \<times> (pool_error + bool)" where
  "addAppToPool sec pm app poolName =
     (if app = [] then (pm, Inl AppIdRequired)
      else if poolName = [] then (pm, Inl PoolNameArgRequired)
      else if \<not> hasPool pm poolName then (pm, Inl (PoolNotFound poolName))
      else case getPool pm poolName of
             (pm1, Inl e) \<Rightarrow> (pm1, Inl e)
           | (pm1, Inr None) \<Rightarrow> (pm1, Inl (PoolNotLoaded poolName))
           | (pm1, Inr (Some poolMeta)) \<Rightarrow>
               (case checkPoolAccess_pm sec pm1 app poolName PolicyRead of
                  Some e \<Rightarrow> (pm1, Inl e)
                | None \<Rightarrow>
                    (pm1\<lparr>appPoolMembership :=
                           AList.update app (set_add poolName (map_get_list (appPoolMembership pm1) app))
                             (appPoolMembership pm1),
                         poolMembership :=
                           AList.update poolName (set_add app (map_get_list (poolMembership pm1) poolName))
                             (poolMembership pm1),
                         pools :=
                           (case map_of (pools pm1) poolName of
                              None \<Rightarrow> pools pm1
                            | Some members \<Rightarrow> AList.update poolName (set_add app members) (pools pm1))\<rparr>,
                     Inr True)))"

definition removeAppFromPool :: "PoolManager \<Rightarrow> app_id \<Rightarrow> pool_name
    \<Rightarrow> PoolManager \<times> (pool_error + bool)" where
  "removeAppFromPool pm app poolName =
     (if app = [] then (pm, Inl AppIdRequired)
      else if poolName = [] then (pm, Inl PoolNameArgRequired)
      else
        (pm\<lparr>appPoolMembership :=
               (case map_of (appPoolMembership pm) app of
                  None \<Rightarrow> appPoolMembership pm
                | Some poolSet \<Rightarrow>
                    if removeAll poolName poolSet = [] then AList.delete app (appPoolMembership pm)
                    else AList.update app (removeAll poolName poolSet) (appPoolMembership pm)),
             poolMembership :=
               (case map_of (poolMembership pm) poolName of
                  None \<Rightarrow> poolMembership pm
                | Some memberSet \<Rightarrow>
                    AList.update poolName (removeAll app memberSet) (poolMembership pm)),
             pools :=
               (case map_of (pools pm) poolName of
                  None \<Rightarrow> pools pm
                | Some members \<Rightarrow> AList.update poolName (removeAll app members) (pools pm))\<rparr>,
         Inr True))"

definition getAppPools :: "PoolManager \<Rightarrow> app_id \<Rightarrow> pool_name list" where
  "getAppPools pm app = map_get_list (appPoolMembership pm) app"

definition validatePoolMembership :: "PoolManager \<Rightarrow> app_id \<Rightarrow> pool_name \<Rightarrow> bool" where
  "validatePoolMembership pm app poolName =
     (if app = [] \<or> poolName = [] then False
      else case map_of (appPoolMembership pm) app of
             None \<Rightarrow> False
           | Some appPools \<Rightarrow> poolName \<in> set appPools)"

section \<open>Server state\<close>

text \<open>
  \<open>AppRegistration\<close> is the registry's object for a bound app; its \<open>connection\<close> is a
  reference into the connection store.  The arrays of pools and triggers are shared between
  a registration and its cache entry in the source; the operations modelled here replace
  them and never mutate them in place, so values suffice.
\<close>

record AppRegistration =
  appId :: app_id
  connection :: "conn_id option"
  app_pools :: "pool_name list"
  app_triggers :: "trigger_name list"
  meta :: metadata
  protocolVersion :: meta_value
  registered :: int
  rehydrated :: bool

record cached_registration =
  cached_pools :: "pool_name list"
  cached_triggers :: "trigger_name list"
  cached_meta :: metadata
  lastRegistered :: int

record app_data =
  data_pools :: "pool_name list"
  data_triggers :: "trigger_name list"
  data_meta :: metadata

text \<open>
  \<open>apps\<close>, \<open>connections\<close>, \<open>triggerMappings\<close>, \<open>rehydrationCache\<close> and \<open>lastSeenApps\<close> are
  the registry's maps.

  Modelled from the spec: the durable store (\<open>persistence.registerApp\<close>,
  \<open>persistence.getApp\<close>) is not among the sources.  \<open>persistedApps\<close> is its app table, a
  key/value store by app id in which registering writes the row and reading returns it, as
  the mock store of the registry's own test does: a row has the pools, the triggers and the
  metadata that were written, and no \<open>protocolVersion\<close> of its own.  \<open>persistenceWritable\<close>
  says whether \<open>persistence.registerApp\<close> resolves; the registry swallows its rejection.
\<close>

record AppRegistry =
  apps :: "(app_id \<times> AppRegistration) list"
  connections :: "(conn_id \<times> app_id) list"
  triggerMappings :: "(trigger_name \<times> app_id list) list"
  rehydrationCache :: "(app_id \<times> cached_registration) list"
  lastSeenApps :: "(app_id \<times> int) list"
  persistedApps :: "(app_id \<times> app_data) list"
  persistenceWritable :: bool

text \<open>
  \<open>TriggerRecord\<close>.  The constructor sets every field below except \<open>originAppId\<close> and
  \<open>origin_app\<close> (the properties \<open>originAppId\<close> and \<open>origin\<close>), which exist on a record only
  if \<open>updateTriggerRecord\<close> assigns them.  \<open>timeoutId\<close> says whether a timer is armed.
\<close>

record TriggerRecord =
  rec_id :: string
  originalMessage :: trigger_msg
  originConnection :: "conn_id option"
  rec_pool :: "pool_name option"
  handlers :: "app_id list"
  created :: int
  rec_ttl :: int
  dispatched :: "int option"
  dispatchedTo :: "app_id option"
  timeoutId :: bool
  completed :: bool
  originAppId :: "app_id option"
  origin_app :: "app_id option"

text \<open>The router's counters; the moving average of response times is a float and left out.\<close>

record router_stats =
  totalTriggers :: nat
  successfulTriggers :: nat
  failedTriggers :: nat
  timeoutTriggers :: nat
  shortCircuitedCalls :: nat

record TriggerRouter =
  triggerRecords :: "(string \<times> TriggerRecord) list"
  stats :: router_stats
  defaultTTL :: int
  maxConcurrentTriggers :: nat
  roundRobinCounters :: "(trigger_name \<times> nat) list"

record server =
  registry :: AppRegistry
  poolManager :: PoolManager
  router :: TriggerRouter
  security :: "Security option"
  conns :: "conn_id \<Rightarrow> Connection"
  outbox :: "(conn_id \<times> message) list"

text \<open>\<open>Connection.send\<close>.\<close>

definition send :: "server \<Rightarrow> conn_id \<Rightarrow> message \<Rightarrow> server \<times> bool" where
  "send s c m =
     (if \<not> isActive (conns s c) then (s, False)
      else if socketOk (conns s c) then (s\<lparr>outbox := outbox s @ [(c, m)]\<rparr>, True)
      else (s, False))"

text \<open>\<open>AppRegistration.isActive\<close> and \<open>AppRegistration.send\<close>.\<close>

definition app_isActive :: "server \<Rightarrow> AppRegistration \<Rightarrow> bool" where
  "app_isActive s a = (case connection a of None \<Rightarrow> False | Some c \<Rightarrow> isActive (conns s c))"

definition app_send :: "server \<Rightarrow> AppRegistration \<Rightarrow> message \<Rightarrow> server \<times> bool" where
  "app_send s a m =
     (case connection a of
        None \<Rightarrow> (s, False)
      | Some c \<Rightarrow> if isActive (conns s c) then send s c m else (s, False))"

section \<open>Trigger router: record cleanup\<close>

definition cleanupTriggerRecord :: "server \<Rightarrow> string \<Rightarrow> server" where
  "cleanupTriggerRecord s triggerId =
     s\<lparr>router := (router s)\<lparr>triggerRecords := AList.delete triggerId (triggerRecords (router s))\<rparr>\<rparr>"

text \<open>
  \<open>_timeoutTriggerRecord\<close>: a \<open>TIMEOUT\<close> error to the origin's connection if it is active,
  one more timeout counted, the record removed.
\<close>

definition timeoutTriggerRecord :: "server \<Rightarrow> TriggerRecord \<Rightarrow> server" where
  "timeoutTriggerRecord s record =
     (let timeoutError = createTimeoutError (Some (t_id (originalMessage record)));
          s1 = (case originConnection record of
                  None \<Rightarrow> s
                | Some c \<Rightarrow> if isActive (conns s c) then fst (send s c timeoutError) else s);
          s2 = s1\<lparr>router := (router s1)\<lparr>stats := (stats (router s1))
                     \<lparr>timeoutTriggers := timeoutTriggers (stats (router s1)) + 1\<rparr>\<rparr>\<rparr>
      in cleanupTriggerRecord s2 (rec_id record))"

text \<open>
  \<open>_handleAppDisconnection\<close>, the router's listener for the registry's \<open>app_disconnected\<close>
  event: the records whose \<open>originAppId\<close> or \<open>origin\<close> is the app are timed out.
\<close>

definition pendingTriggers :: "server \<Rightarrow> app_id \<Rightarrow> TriggerRecord list" where
  "pendingTriggers s app =
     filter (\<lambda>record. originAppId record = Some app \<or> origin_app record = Some app)
       (map snd (triggerRecords (router s)))"

definition handleAppDisconnection :: "server \<Rightarrow> app_id \<Rightarrow> server" where
  "handleAppDisconnection s app = fold (\<lambda>record st. timeoutTriggerRecord st record) (pendingTriggers s app) s"

section \<open>App registry\<close>

definition addTriggerMapping :: "(trigger_name \<times> app_id list) list \<Rightarrow> trigger_name \<Rightarrow> app_id
    \<Rightarrow> (trigger_name \<times> app_id list) list" where
  "addTriggerMapping tm triggerName app =
     AList.update triggerName (set_add app (map_get_list tm triggerName)) tm"

definition removeTriggerMapping :: "(trigger_name \<times> app_id list) list \<Rightarrow> trigger_name \<Rightarrow> app_id
    \<Rightarrow> (trigger_name \<times> app_id list) list" where
  "removeTriggerMapping tm triggerName app =
     (case map_of tm triggerName of
        None \<Rightarrow> tm
      | Some appIds \<Rightarrow>
          if removeAll app appIds = [] then AList.delete triggerName tm
          else AList.update triggerName (removeAll app appIds) tm)"

definition validateAppId :: "app_id \<Rightarrow> bool" where
  "validateAppId app = (app \<noteq> [] \<and> length app \<le> 128 \<and> list_all name_char app)"

definition validatePools :: "pool_name list \<Rightarrow> bool" where
  "validatePools pls = list_all (\<lambda>p. p \<noteq> [] \<and> length p \<le> 64 \<and> list_all name_char p) pls"

definition validateTriggerName :: "trigger_name \<Rightarrow> bool" where
  "validateTriggerName t = (t \<noteq> [] \<and> length t \<le> 128 \<and> list_all trigger_char t)"

definition validateTriggers :: "trigger_name list \<Rightarrow> bool" where
  "validateTriggers ts = list_all validateTriggerName ts"

datatype hs_error =
    SchemaInvalidAppId
  | SchemaInvalidPoolName
  | SchemaInvalidTriggerName
  | InvalidAppIdFormat
  | InvalidPoolsSpec
  | InvalidTriggersSpec
  | NoRehydrationData app_id
  | AppNotFound app_id
  | PoolFailure pool_error

text \<open>The handshake schema of \<open>ProtocolParser.validateMessage\<close>.\<close>

definition validateHandshakeSchema :: "handshake_msg \<Rightarrow> hs_error option" where
  "validateHandshakeSchema msg =
     (if h_app_id msg = [] \<or> length (h_app_id msg) > 128 then Some SchemaInvalidAppId
      else if \<not> list_all (\<lambda>p. length p \<le> 64) (case h_pools msg of None \<Rightarrow> [] | Some l \<Rightarrow> l)
        then Some SchemaInvalidPoolName
      else if \<not> list_all (\<lambda>t. length t \<le> 128) (case h_triggers msg of None \<Rightarrow> [] | Some l \<Rightarrow> l)
        then Some SchemaInvalidTriggerName
      else None)"

fun addAppToPools :: "Security option \<Rightarrow> PoolManager \<Rightarrow> app_id \<Rightarrow> pool_name list
    \<Rightarrow> PoolManager \<times> (pool_error + unit)" where
  "addAppToPools sec pm app [] = (pm, Inr ())"
| "addAppToPools sec pm app (p # ps) =
     (case addAppToPool sec pm app p of
        (pm1, Inl e) \<Rightarrow> (pm1, Inl e)
      | (pm1, Inr ok) \<Rightarrow> addAppToPools sec pm1 app ps)"

fun removeAppFromPools :: "PoolManager \<Rightarrow> app_id \<Rightarrow> pool_name list
    \<Rightarrow> PoolManager \<times> (pool_error + unit)" where
  "removeAppFromPools pm app [] = (pm, Inr ())"
| "removeAppFromPools pm app (p # ps) =
     (case removeAppFromPool pm app p of
        (pm1, Inl e) \<Rightarrow> (pm1, Inl e)
      | (pm1, Inr ok) \<Rightarrow> removeAppFromPools pm1 app ps)"

text \<open>
  \<open>_persistAppRegistration\<close>: the metadata written is
  \<open>{...registration.meta, protocolVersion, rehydrated}\<close>.  A rejection of the store is
  caught and logged.
\<close>

definition persistAppRegistration :: "AppRegistry \<Rightarrow> AppRegistration \<Rightarrow> AppRegistry" where
  "persistAppRegistration r registration =
     (if persistenceWritable r
      then r\<lparr>persistedApps :=
               AList.update (appId registration)
                 \<lparr>data_pools = app_pools registration, data_triggers = app_triggers registration,
                  data_meta =
                    AList.update ''rehydrated'' (MBool (rehydrated registration))
                      (AList.update ''protocolVersion'' (protocolVersion registration)
                         (meta registration))\<rparr>
                 (persistedApps r)\<rparr>
      else r)"

text \<open>\<open>meta.protocolVersion || '0.1.0'\<close>.\<close>

definition protocolVersion_or_default :: "metadata \<Rightarrow> meta_value" where
  "protocolVersion_or_default md =
     (case map_of md ''protocolVersion'' of
        Some (MString v) \<Rightarrow> if v = [] then MString ''0.1.0'' else MString v
      | Some (MBool b) \<Rightarrow> if b then MBool True else MString ''0.1.0''
      | Some MUndefined \<Rightarrow> MString ''0.1.0''
      | None \<Rightarrow> MString ''0.1.0'')"

definition hasRehydrationData :: "AppRegistry \<Rightarrow> app_id \<Rightarrow> bool" where
  "hasRehydrationData r app =
     (map_of (rehydrationCache r) app \<noteq> None \<or> map_of (persistedApps r) app \<noteq> None)"

definition cache_of :: "AppRegistration \<Rightarrow> cached_registration" where
  "cache_of registration =
     \<lparr>cached_pools = app_pools registration, cached_triggers = app_triggers registration,
      cached_meta = meta registration, lastRegistered = registered registration\<rparr>"

definition merge_meta :: "metadata \<Rightarrow> metadata \<Rightarrow> metadata" where
  "merge_meta old new = fold (\<lambda>(k, v) m. AList.update k v m) new old"

text \<open>
  \<open>updateApp(app_id, {triggers, pools, metadata})\<close>.  The registration object is mutated
  field by field, so an error part-way leaves the earlier assignments in place.
\<close>

definition updateApp :: "server \<Rightarrow> app_id \<Rightarrow> trigger_name list option \<Rightarrow> pool_name list option
    \<Rightarrow> metadata option \<Rightarrow> server \<times> (hs_error + AppRegistration)" where
  "updateApp s app new_triggers new_pools new_meta =
     (case map_of (apps (registry s)) app of
        None \<Rightarrow> (s, Inl (AppNotFound app))
      | Some registration \<Rightarrow>
          (let oldTriggers = app_triggers registration;
               oldPools = app_pools registration
           in if (case new_pools of None \<Rightarrow> False | Some pls \<Rightarrow> \<not> validatePools pls)
              then (s, Inl InvalidPoolsSpec)
              else
                (let reg1 = (case new_pools of
                               None \<Rightarrow> registration
                             | Some pls \<Rightarrow> registration\<lparr>app_pools := pls\<rparr>);
                     s1 = s\<lparr>registry := (registry s)\<lparr>apps := AList.update app reg1 (apps (registry s))\<rparr>\<rparr>
                 in if (case new_triggers of None \<Rightarrow> False | Some ts \<Rightarrow> \<not> validateTriggers ts)
                    then (s1, Inl InvalidTriggersSpec)
                    else
                      (let reg2 = (case new_triggers of
                                     None \<Rightarrow> reg1
                                   | Some ts \<Rightarrow> reg1\<lparr>app_triggers := ts\<rparr>);
                           tm2 = (case new_triggers of
                                    None \<Rightarrow> triggerMappings (registry s1)
                                  | Some ts \<Rightarrow>
                                      fold (\<lambda>t tm. addTriggerMapping tm t app) ts
                                        (fold (\<lambda>t tm. removeTriggerMapping tm t app) oldTriggers
                                           (triggerMappings (registry s1))));
                           reg3 = (case new_meta of
                                     None \<Rightarrow> reg2
                                   | Some md \<Rightarrow> reg2\<lparr>meta := merge_meta (meta reg2) md\<rparr>);
                           s3 = s1\<lparr>registry := (registry s1)
                                     \<lparr>apps := AList.update app reg3 (apps (registry s1)),
                                      triggerMappings := tm2\<rparr>\<rparr>;
                           poolsToAdd = (case new_pools of
                                           None \<Rightarrow> []
                                         | Some pls \<Rightarrow> filter (\<lambda>p. p \<notin> set oldPools) pls);
                           poolsToRemove = (case new_pools of
                                              None \<Rightarrow> []
                                            | Some pls \<Rightarrow> filter (\<lambda>p. p \<notin> set pls) oldPools)
                       in case removeAppFromPools (poolManager s3) app poolsToRemove of
                            (pm4, Inl e) \<Rightarrow> (s3\<lparr>poolManager := pm4\<rparr>, Inl (PoolFailure e))
                          | (pm4, Inr u) \<Rightarrow>
                              (case addAppToPools (security s3) pm4 app poolsToAdd of
                                 (pm5, Inl e) \<Rightarrow> (s3\<lparr>poolManager := pm5\<rparr>, Inl (PoolFailure e))
                               | (pm5, Inr u') \<Rightarrow>
                                   (s3\<lparr>poolManager := pm5,
                                       registry := persistAppRegistration
                                         ((registry s3)\<lparr>rehydrationCache :=
                                             AList.update app (cache_of reg3)
                                               (rehydrationCache (registry s3))\<rparr>) reg3\<rparr>,
                                    Inr reg3))))))"

text \<open>\<open>registerApp(app_id, triggers, pools, metadata, connection)\<close>.\<close>

definition registerApp :: "int \<Rightarrow> server \<Rightarrow> app_id \<Rightarrow> trigger_name list \<Rightarrow> pool_name list
    \<Rightarrow> metadata \<Rightarrow> conn_id option \<Rightarrow> server \<times> (hs_error + AppRegistration)" where
  "registerApp now s app trigs pls metadata conn =
     (if \<not> validateAppId app then (s, Inl InvalidAppIdFormat)
      else if \<not> validateTriggers trigs then (s, Inl InvalidTriggersSpec)
      else if \<not> validatePools pls then (s, Inl InvalidPoolsSpec)
      else if map_of (apps (registry s)) app \<noteq> None
        then updateApp s app (Some trigs) (Some pls) (Some metadata)
      else
        (let registration =
               \<lparr>appId = app, connection = conn, app_pools = pls, app_triggers = trigs,
                meta = metadata, protocolVersion = protocolVersion_or_default metadata,
                registered = now, rehydrated = False\<rparr>;
             r = registry s;
             r1 = r\<lparr>apps := AList.update app registration (apps r),
                    connections := (case conn of
                                      None \<Rightarrow> connections r
                                    | Some c \<Rightarrow> AList.update c app (connections r)),
                    triggerMappings := fold (\<lambda>t tm. addTriggerMapping tm t app) trigs
                                         (triggerMappings r),
                    rehydrationCache := AList.update app
                                          ((cache_of registration)\<lparr>lastRegistered := now\<rparr>)
                                          (rehydrationCache r)\<rparr>
         in case addAppToPools (security s) (poolManager s) app pls of
              (pm1, Inl e) \<Rightarrow> (s\<lparr>registry := r1, poolManager := pm1\<rparr>, Inl (PoolFailure e))
            | (pm1, Inr u) \<Rightarrow>
                (s\<lparr>registry := persistAppRegistration r1 registration, poolManager := pm1\<rparr>,
                 Inr registration)))"

text \<open>
  \<open>rehydrateApp(app_id, connection)\<close>: the durable store's row first, the cache as the
  fallback, which gets a \<open>protocolVersion\<close> from the cached metadata.  Stored triggers that
  no longer validate are cleared.
\<close>

definition rehydrateApp :: "int \<Rightarrow> server \<Rightarrow> app_id \<Rightarrow> conn_id option
    \<Rightarrow> server \<times> (hs_error + AppRegistration)" where
  "rehydrateApp now s app conn =
     (let r = registry s;
          appData = (case map_of (persistedApps r) app of
                       Some d \<Rightarrow> Some (d, MUndefined)
                     | None \<Rightarrow>
                         (case map_of (rehydrationCache r) app of
                            Some c \<Rightarrow> Some (\<lparr>data_pools = cached_pools c,
                                              data_triggers = cached_triggers c,
                                              data_meta = cached_meta c\<rparr>,
                                             protocolVersion_or_default (cached_meta c))
                          | None \<Rightarrow> None))
      in case appData of
           None \<Rightarrow> (s, Inl (NoRehydrationData app))
         | Some (d0, version0) \<Rightarrow>
             (let d = (if validateTriggers (data_triggers d0) then d0
                       else d0\<lparr>data_triggers := []\<rparr>);
                  registration =
                    \<lparr>appId = app, connection = conn, app_pools = data_pools d,
                     app_triggers = data_triggers d, meta = data_meta d,
                     protocolVersion = version0, registered = now, rehydrated = True\<rparr>;
                  r1 = r\<lparr>apps := AList.update app registration (apps r),
                         connections := (case conn of
                                           None \<Rightarrow> connections r
                                         | Some c \<Rightarrow> AList.update c app (connections r)),
                         triggerMappings := fold (\<lambda>t tm. addTriggerMapping tm t app)
                                              (data_triggers d) (triggerMappings r),
                         rehydrationCache := AList.update app
                                               ((cache_of registration)\<lparr>lastRegistered := now\<rparr>)
                                               (rehydrationCache r)\<rparr>
              in case addAppToPools (security s) (poolManager s) app (data_pools d) of
                   (pm1, Inl e) \<Rightarrow> (s\<lparr>registry := r1, poolManager := pm1\<rparr>, Inl (PoolFailure e))
                 | (pm1, Inr u) \<Rightarrow> (s\<lparr>registry := r1, poolManager := pm1\<rparr>, Inr registration)))"

text \<open>
  \<open>processHandshake(message, connection)\<close>.  A handshake is a rehydration request when its
  trigger list is empty and rehydration data exists for the app.  Success sends the
  acknowledgment with the registration's pools and triggers; any error sends
  \<open>HANDSHAKE_ERROR\<close> and is thrown again.
\<close>

definition hs_error_text :: "hs_error \<Rightarrow> string" where
  "hs_error_text e =
     (case e of
        SchemaInvalidAppId \<Rightarrow> ''Invalid app_id: must be a string with max length 128''
      | SchemaInvalidPoolName \<Rightarrow> ''Invalid pool name: must be a string with max length 64''
      | SchemaInvalidTriggerName \<Rightarrow> ''Invalid trigger name: must be a string with max length 128''
      | InvalidAppIdFormat \<Rightarrow> ''Invalid app_id format''
      | InvalidPoolsSpec \<Rightarrow> ''Invalid pools specification''
      | InvalidTriggersSpec \<Rightarrow> ''Invalid triggers specification''
      | NoRehydrationData app \<Rightarrow> ''No rehydration data available for app: '' @ app
      | AppNotFound app \<Rightarrow> ''App '' @ app @ '' not found''
      | PoolFailure pe \<Rightarrow> pool_error_text pe)"

definition requested_pools :: "handshake_msg \<Rightarrow> pool_name list" where
  "requested_pools msg = (case h_pools msg of None \<Rightarrow> [''default''] | Some l \<Rightarrow> l)"

definition requested_triggers :: "handshake_msg \<Rightarrow> trigger_name list" where
  "requested_triggers msg = (case h_triggers msg of None \<Rightarrow> [] | Some l \<Rightarrow> l)"

definition requested_metadata :: "handshake_msg \<Rightarrow> metadata" where
  "requested_metadata msg = (case h_metadata msg of None \<Rightarrow> [] | Some l \<Rightarrow> l)"

definition handshake_body :: "int \<Rightarrow> server \<Rightarrow> handshake_msg \<Rightarrow> conn_id
    \<Rightarrow> server \<times> (hs_error + AppRegistration \<times> bool)" where
  "handshake_body now s msg c =
     (case validateHandshakeSchema msg of
        Some e \<Rightarrow> (s, Inl e)
      | None \<Rightarrow>
          (let app = h_app_id msg;
               pls = requested_pools msg;
               trigs = requested_triggers msg;
               metadata = requested_metadata msg
           in if \<not> validateAppId app then (s, Inl InvalidAppIdFormat)
              else if \<not> validatePools pls then (s, Inl InvalidPoolsSpec)
              else if \<not> validateTriggers trigs then (s, Inl InvalidTriggersSpec)
              else
                (let isRehydration = (trigs = [] \<and> hasRehydrationData (registry s) app)
                 in case (if isRehydration then rehydrateApp now s app (Some c)
                          else registerApp now s app trigs pls metadata (Some c)) of
                      (s1, Inl e) \<Rightarrow> (s1, Inl e)
                    | (s1, Inr registration) \<Rightarrow> (s1, Inr (registration, isRehydration)))))"

definition processHandshake :: "int \<Rightarrow> server \<Rightarrow> handshake_msg \<Rightarrow> conn_id
    \<Rightarrow> server \<times> (hs_error + AppRegistration)" where
  "processHandshake now s msg c =
     (case handshake_body now s msg c of
        (s1, Inl e) \<Rightarrow>
          (fst (send s1 c (createError (h_id msg) (hs_error_text e) ''HANDSHAKE_ERROR'')), Inl e)
      | (s1, Inr (registration, isRehydration)) \<Rightarrow>
          (let s2 = fst (send s1 c
                      (HandshakeAck
                         \<lparr>ack_correlation_id = h_id msg, ack_status = ''success'',
                          assigned_app_id = h_app_id msg,
                          assigned_pools = app_pools registration,
                          assigned_triggers = app_triggers registration,
                          assigned_rehydrated = isRehydration\<rparr>))
           in (s2\<lparr>registry := (registry s2)
                    \<lparr>lastSeenApps := AList.update (h_app_id msg) now (lastSeenApps (registry s2))\<rparr>\<rparr>,
               Inr registration)))"

text \<open>
  \<open>handleDisconnection(connection)\<close>.  The \<open>app_disconnected\<close> event runs the router's
  listener before the registration is deleted.
\<close>

definition handleDisconnection :: "server \<Rightarrow> conn_id \<Rightarrow> server" where
  "handleDisconnection s c =
     (case map_of (connections (registry s)) c of
        None \<Rightarrow> s
      | Some app \<Rightarrow>
          if app = [] then s
          else
            (let s1 = (case map_of (apps (registry s)) app of
                         None \<Rightarrow> s
                       | Some registration \<Rightarrow>
                           handleAppDisconnection
                             (s\<lparr>registry := (registry s)
                                  \<lparr>triggerMappings :=
                                     fold (\<lambda>t tm. removeTriggerMapping tm t app)
                                       (app_triggers registration) (triggerMappings (registry s)),
                                   rehydrationCache :=
                                     AList.update app (cache_of registration)
                                       (rehydrationCache (registry s))\<rparr>\<rparr>)
                             app)
             in s1\<lparr>registry := (registry s1)
                      \<lparr>apps := AList.delete app (apps (registry s1)),
                       connections := AList.delete c (connections (registry s1))\<rparr>\<rparr>))"

text \<open>Lookups of the registry.\<close>

definition getAppByConnection :: "server \<Rightarrow> conn_id \<Rightarrow> AppRegistration option" where
  "getAppByConnection s c =
     (case map_of (connections (registry s)) c of
        None \<Rightarrow> None
      | Some app \<Rightarrow> if app = [] then None else map_of (apps (registry s)) app)"

definition getAppTriggers :: "server \<Rightarrow> app_id \<Rightarrow> trigger_name list" where
  "getAppTriggers s app =
     (case map_of (apps (registry s)) app of None \<Rightarrow> [] | Some registration \<Rightarrow> app_triggers registration)"

definition getTriggersHandlers :: "server \<Rightarrow> trigger_name \<Rightarrow> AppRegistration list" where
  "getTriggersHandlers s triggerName =
     filter (app_isActive s)
       (List.map_filter (\<lambda>app. map_of (apps (registry s)) app)
          (map_get_list (triggerMappings (registry s)) triggerName))"

section \<open>Trigger router: requests and responses\<close>

datatype route_error =
    MaxConcurrentExceeded nat
  | OriginNotRegistered
  | RoutePoolFailure pool_error
  | RoutePoolNotFound pool_name
  | NotPoolMember app_id pool_name
  | MissingTriggerName
  | DestinationNotFound app_id
  | DestinationCannotHandle app_id trigger_name
  | DestinationNotPoolMember app_id pool_name
  | DestinationNotActive app_id
  | RoutingArgumentsRequired
  | OriginNotFound app_id
  | NoCommonPools app_id app_id
  | NoHandlersFound trigger_name pool_name
  | NoAvailableDestination trigger_name
  | RecordRequiresIdAndOrigin
  | RecordAlreadyExists string
  | NoActiveHandler "string option"
  | DispatchFailed app_id
  | ResponseDestinationInactive app_id
  | ResponseTargetInactive
  | ResponseSendFailed

text \<open>A natural number in a template literal: its decimal digits (for a number below \<open>10^21\<close>).\<close>

fun decimal :: "nat \<Rightarrow> string" where
  "decimal n =
     (if n < 10 then [''0123456789'' ! n]
      else decimal (n div 10) @ [''0123456789'' ! (n mod 10)])"

declare decimal.simps [simp del]

text \<open>The message of each error the router throws.\<close>

definition route_error_text :: "route_error \<Rightarrow> string" where
  "route_error_text e =
     (case e of
        MaxConcurrentExceeded n \<Rightarrow> ''Maximum concurrent triggers exceeded: '' @ decimal n
      | OriginNotRegistered \<Rightarrow> ''Origin application not registered''
      | RoutePoolFailure pe \<Rightarrow> pool_error_text pe
      | RoutePoolNotFound p \<Rightarrow> ''Pool '' @ quoted p @ '' not found''
      | NotPoolMember a p \<Rightarrow> ''App '' @ quoted a @ '' is not a member of pool '' @ quoted p
      | MissingTriggerName \<Rightarrow> ''Invalid trigger message: missing trigger name''
      | DestinationNotFound a \<Rightarrow> ''Destination app '' @ quoted a @ '' not found''
      | DestinationCannotHandle a t \<Rightarrow>
          ''Destination app '' @ quoted a @ '' cannot handle trigger '' @ quoted t
      | DestinationNotPoolMember a p \<Rightarrow>
          ''Destination app '' @ quoted a @ '' is not a member of pool '' @ quoted p
      | DestinationNotActive a \<Rightarrow> ''Destination app '' @ quoted a @ '' is not active''
      | RoutingArgumentsRequired \<Rightarrow>
          ''Origin, destination, and trigger name are required for routing validation''
      | OriginNotFound a \<Rightarrow> ''Origin app '' @ quoted a @ '' not found''
      | NoCommonPools a b \<Rightarrow>
          ''No common pools between origin '' @ quoted a @ '' and destination '' @ quoted b
      | NoHandlersFound t p \<Rightarrow> ''No handlers found for trigger: '' @ t @ '' in pool: '' @ p
      | NoAvailableDestination t \<Rightarrow> ''No available destination for trigger: '' @ t
      | RecordRequiresIdAndOrigin \<Rightarrow> ''Trigger record requires id and origin''
      | RecordAlreadyExists i \<Rightarrow> ''Trigger record with id '' @ quoted i @ '' already exists''
      | NoActiveHandler p \<Rightarrow>
          ''No active handler available for trigger: ''
            @ (case p of None \<Rightarrow> ''undefined'' | Some x \<Rightarrow> x)
      | DispatchFailed a \<Rightarrow> ''Failed to dispatch trigger to handler: '' @ a
      | ResponseDestinationInactive a \<Rightarrow>
          ''Destination app '' @ quoted a @ '' not found or inactive''
      | ResponseTargetInactive \<Rightarrow> ''Target connection for response is not active''
      | ResponseSendFailed \<Rightarrow> ''Failed to send response to target connection'')"

definition bump_failed :: "server \<Rightarrow> server" where
  "bump_failed s =
     s\<lparr>router := (router s)\<lparr>stats := (stats (router s))
          \<lparr>failedTriggers := failedTriggers (stats (router s)) + 1\<rparr>\<rparr>\<rparr>"

definition bump_shortCircuited :: "server \<Rightarrow> server" where
  "bump_shortCircuited s =
     s\<lparr>router := (router s)\<lparr>stats := (stats (router s))
          \<lparr>shortCircuitedCalls := shortCircuitedCalls (stats (router s)) + 1\<rparr>\<rparr>\<rparr>"

text \<open>\<open>findTriggerHandlers\<close>: the active handlers of the trigger that are members of the pool.\<close>

definition findTriggerHandlers :: "server \<Rightarrow> trigger_name \<Rightarrow> pool_name \<Rightarrow> AppRegistration list" where
  "findTriggerHandlers s triggerName poolName =
     filter (\<lambda>handler. validatePoolMembership (poolManager s) (appId handler) poolName)
       (getTriggersHandlers s triggerName)"

text \<open>
  \<open>_selectRoundRobin\<close>: the cursor is kept under the first trigger of the first handler
  (\<open>default\<close> if it has none) and only ever grows.
\<close>

definition selectRoundRobin :: "server \<Rightarrow> AppRegistration list \<Rightarrow> server \<times> AppRegistration option" where
  "selectRoundRobin s hs =
     (case hs of
        [] \<Rightarrow> (s, None)
      | h # rest \<Rightarrow>
          (let triggerName = (case app_triggers h of
                                [] \<Rightarrow> ''default''
                              | t # ts \<Rightarrow> if t = [] then ''default'' else t);
               counter = (case map_of (roundRobinCounters (router s)) triggerName of
                            None \<Rightarrow> 0 | Some n \<Rightarrow> n)
           in (s\<lparr>router := (router s)\<lparr>roundRobinCounters :=
                    AList.update triggerName (counter + 1) (roundRobinCounters (router s))\<rparr>\<rparr>,
               Some (hs ! (counter mod length hs)))))"

text \<open>\<open>selectDestination\<close> with the router's default strategy, round robin.\<close>

definition selectDestination :: "server \<Rightarrow> AppRegistration list \<Rightarrow> server \<times> AppRegistration option" where
  "selectDestination s hs =
     (let activeHandlers = filter (app_isActive s) hs
      in case activeHandlers of
           [] \<Rightarrow> (s, None)
         | [h] \<Rightarrow> (s, Some h)
         | h # h' # rest \<Rightarrow> selectRoundRobin s activeHandlers)"

definition validateRouting :: "server \<Rightarrow> app_id option \<Rightarrow> app_id \<Rightarrow> trigger_name \<Rightarrow> route_error option" where
  "validateRouting s orig dest triggerName =
     (if \<not> truthy orig \<or> dest = [] \<or> triggerName = [] then Some RoutingArgumentsRequired
      else case map_of (apps (registry s)) (the orig) of
             None \<Rightarrow> Some (OriginNotFound (the orig))
           | Some originApp \<Rightarrow>
               (case map_of (apps (registry s)) dest of
                  None \<Rightarrow> Some (DestinationNotFound dest)
                | Some destinationApp \<Rightarrow>
                    if triggerName \<notin> set (getAppTriggers s dest)
                    then Some (DestinationCannotHandle dest triggerName)
                    else if filter (\<lambda>p. p \<in> set (getAppPools (poolManager s) dest))
                              (getAppPools (poolManager s) (the orig)) = []
                    then Some (NoCommonPools (the orig) dest)
                    else None))"

definition optimizeLocalRouting :: "server \<Rightarrow> app_id option \<Rightarrow> app_id \<Rightarrow> bool" where
  "optimizeLocalRouting s orig dest =
     (if \<not> truthy orig \<or> dest = [] then False
      else case (map_of (apps (registry s)) (the orig), map_of (apps (registry s)) dest) of
             (Some originApp, Some destinationApp) \<Rightarrow> connection originApp = connection destinationApp
           | _ \<Rightarrow> False)"

text \<open>
  \<open>routeTrigger\<close>: the selected destination and the handlers considered, or the error
  thrown.
\<close>

definition routeTrigger :: "server \<Rightarrow> trigger_msg
    \<Rightarrow> server \<times> (route_error + AppRegistration \<times> AppRegistration list)" where
  "routeTrigger s msg =
     (if \<not> truthy (trigger msg) then (s, Inl MissingTriggerName)
      else
        (let triggerName = the (trigger msg);
             poolName = (if truthy (t_pool msg) then the (t_pool msg) else ''default'')
         in if truthy (destination msg) then
              (let dest = the (destination msg)
               in case map_of (apps (registry s)) dest of
                    None \<Rightarrow> (s, Inl (DestinationNotFound dest))
                  | Some destinationApp \<Rightarrow>
                      if triggerName \<notin> set (getAppTriggers s dest)
                      then (s, Inl (DestinationCannotHandle dest triggerName))
                      else if \<not> validatePoolMembership (poolManager s) dest poolName
                      then (s, Inl (DestinationNotPoolMember dest poolName))
                      else if \<not> app_isActive s destinationApp
                      then (s, Inl (DestinationNotActive dest))
                      else
                        (case validateRouting s (origin msg) dest triggerName of
                           Some e \<Rightarrow> (s, Inl e)
                         | None \<Rightarrow>
                             ((if optimizeLocalRouting s (origin msg) dest
                               then bump_shortCircuited s else s),
                              Inr (destinationApp, [destinationApp]))))
            else
              (let hs = findTriggerHandlers s triggerName poolName
               in if hs = [] then (s, Inl (NoHandlersFound triggerName poolName))
                  else
                    (case selectDestination s hs of
                       (s1, None) \<Rightarrow> (s1, Inl (NoAvailableDestination triggerName))
                     | (s1, Some dest) \<Rightarrow>
                         (case validateRouting s1 (origin msg) (appId dest) triggerName of
                            Some e \<Rightarrow> (s1, Inl e)
                          | None \<Rightarrow>
                              ((if optimizeLocalRouting s1 (origin msg) (appId dest)
                                then bump_shortCircuited s1 else s1),
                               Inr (dest, hs)))))))"

text \<open>
  \<open>createTriggerRecord\<close> and the \<open>TriggerRecord\<close> constructor it calls.  The time to live
  passes three defaults: the caller's \<open>message.ttl || this.defaultTTL\<close>, then
  \<open>metadata.ttl || this.defaultTTL\<close>, then the constructor's \<open>options.ttl || 30000\<close>.  The
  ephemeral copy written to the store is not read back by the router and is left out.
\<close>

definition or_default :: "int \<Rightarrow> int \<Rightarrow> int" where
  "or_default x d = (if x \<noteq> 0 then x else d)"

definition newTriggerRecord :: "trigger_msg \<Rightarrow> conn_id option \<Rightarrow> pool_name option \<Rightarrow> app_id list
    \<Rightarrow> int \<Rightarrow> int \<Rightarrow> TriggerRecord" where
  "newTriggerRecord msg conn pl hs created_opt ttl_opt =
     \<lparr>rec_id = t_id msg, originalMessage = msg, originConnection = conn, rec_pool = pl,
      handlers = hs, created = created_opt, rec_ttl = or_default ttl_opt 30000,
      dispatched = None, dispatchedTo = None, timeoutId = False, completed = False,
      originAppId = None, origin_app = None\<rparr>"

definition createTriggerRecord :: "int \<Rightarrow> server \<Rightarrow> string \<Rightarrow> app_id \<Rightarrow> trigger_msg
    \<Rightarrow> conn_id \<Rightarrow> pool_name \<Rightarrow> app_id list \<Rightarrow> int \<Rightarrow> int
    \<Rightarrow> server \<times> (route_error + TriggerRecord)" where
  "createTriggerRecord now s i orig msg conn pl hs created_opt ttl_opt =
     (if i = [] \<or> orig = [] then (s, Inl RecordRequiresIdAndOrigin)
      else if map_of (triggerRecords (router s)) i \<noteq> None then (s, Inl (RecordAlreadyExists i))
      else
        (let record = newTriggerRecord msg (Some conn) (Some pl) hs
                        (or_default created_opt now) (or_default ttl_opt (defaultTTL (router s)))
         in (s\<lparr>router := (router s)\<lparr>triggerRecords :=
                  AList.update i record (triggerRecords (router s))\<rparr>\<rparr>,
             Inr record)))"

text \<open>
  \<open>_selectHandler\<close>: the only handler of a singleton list, else a random active one;
  \<open>rand\<close> stands for the value drawn.
\<close>

definition selectHandler :: "server \<Rightarrow> nat \<Rightarrow> AppRegistration list \<Rightarrow> AppRegistration option" where
  "selectHandler s rand hs =
     (case hs of
        [] \<Rightarrow> None
      | [h] \<Rightarrow> Some h
      | h # h' # rest \<Rightarrow>
          (let activeHandlers = filter (app_isActive s) hs
           in if activeHandlers = [] then None
              else Some (activeHandlers ! (rand mod length activeHandlers))))"

text \<open>
  Mutating a record object: the change shows in the table if the object is still there.
\<close>

definition update_record :: "server \<Rightarrow> string \<Rightarrow> (TriggerRecord \<Rightarrow> TriggerRecord) \<Rightarrow> server" where
  "update_record s i f =
     (case map_of (triggerRecords (router s)) i of
        None \<Rightarrow> s
      | Some record \<Rightarrow>
          s\<lparr>router := (router s)\<lparr>triggerRecords :=
               AList.update i (f record) (triggerRecords (router s))\<rparr>\<rparr>)"

text \<open>
  \<open>_dispatchTrigger\<close>.  A call of an app to itself is answered with
  \<open>SHORT_CIRCUIT_NOT_IMPLEMENTED\<close> and its record is removed.
\<close>

definition dispatchTrigger :: "int \<Rightarrow> nat \<Rightarrow> server \<Rightarrow> TriggerRecord \<Rightarrow> AppRegistration list
    \<Rightarrow> server \<times> route_error option" where
  "dispatchTrigger now rand s record hs =
     (let msg = originalMessage record
      in case selectHandler s rand hs of
           None \<Rightarrow> (s, Some (NoActiveHandler (process msg)))
         | Some targetHandler \<Rightarrow>
             if \<not> app_isActive s targetHandler then (s, Some (NoActiveHandler (process msg)))
             else
               (let originApp = (case originConnection record of
                                   None \<Rightarrow> None | Some c \<Rightarrow> getAppByConnection s c)
                in if (case originApp of None \<Rightarrow> False | Some a \<Rightarrow> appId a = appId targetHandler)
                   then
                     (let errorResponse =
                            createError (Some (t_id msg))
                              ''Intra-process trigger calls not yet supported''
                              ''SHORT_CIRCUIT_NOT_IMPLEMENTED'';
                          s1 = (case originConnection record of
                                  None \<Rightarrow> s
                                | Some c \<Rightarrow>
                                    if isActive (conns s c) then fst (send s c errorResponse) else s)
                      in (cleanupTriggerRecord (bump_failed s1) (rec_id record), None))
                   else
                     (case app_send s targetHandler (Trigger msg) of
                        (s1, False) \<Rightarrow> (s1, Some (DispatchFailed (appId targetHandler)))
                      | (s1, True) \<Rightarrow>
                          (update_record s1 (rec_id record)
                             (\<lambda>r. r\<lparr>dispatchedTo := Some (appId targetHandler),
                                    dispatched := Some now\<rparr>),
                           None))))"

text \<open>
  \<open>handleTriggerRequest(message, connection)\<close>.  Every error thrown on the way is answered
  to the caller with the code \<open>TRIGGER_ROUTING_ERROR\<close> and counted as a failed trigger.
\<close>

definition trigger_request_body :: "int \<Rightarrow> nat \<Rightarrow> server \<Rightarrow> trigger_msg \<Rightarrow> conn_id
    \<Rightarrow> server \<times> route_error option" where
  "trigger_request_body now rand s msg c =
     (if length (triggerRecords (router s)) \<ge> maxConcurrentTriggers (router s)
      then (s, Some (MaxConcurrentExceeded (maxConcurrentTriggers (router s))))
      else
        (let triggerName = (if truthy (trigger msg) then trigger msg else process msg);
             triggerId = t_id msg
         in case getAppByConnection s c of
              None \<Rightarrow> (s, Some OriginNotRegistered)
            | Some originApp \<Rightarrow>
                (let poolName = (if truthy (t_pool msg) then the (t_pool msg) else ''default'')
                 in case getPool (poolManager s) poolName of
                      (pm1, Inl e) \<Rightarrow> (s\<lparr>poolManager := pm1\<rparr>, Some (RoutePoolFailure e))
                    | (pm1, Inr None) \<Rightarrow> (s\<lparr>poolManager := pm1\<rparr>, Some (RoutePoolNotFound poolName))
                    | (pm1, Inr (Some pool)) \<Rightarrow>
                        (let s1 = s\<lparr>poolManager := pm1\<rparr>
                         in if \<not> validatePoolMembership (poolManager s1) (appId originApp) poolName
                            then (s1, Some (NotPoolMember (appId originApp) poolName))
                            else
                              (let msg1 = msg\<lparr>origin := Some (appId originApp)\<rparr>
                               in case routeTrigger s1 msg1 of
                                    (s2, Inl e) \<Rightarrow> (s2, Some e)
                                  | (s2, Inr (dest, hs)) \<Rightarrow>
                                      (case createTriggerRecord now s2 triggerId (appId originApp)
                                              msg1 c poolName (map appId hs) now
                                              (if truthy_num (ttl msg1) then the (ttl msg1)
                                               else defaultTTL (router s2)) of
                                         (s3, Inl e) \<Rightarrow> (s3, Some e)
                                       | (s3, Inr record) \<Rightarrow>
                                           (case dispatchTrigger now rand s3 record [dest] of
                                              (s4, Some e) \<Rightarrow> (s4, Some e)
                                            | (s4, None) \<Rightarrow>
                                                (update_record s4 triggerId
                                                   (\<lambda>r. r\<lparr>timeoutId := True\<rparr>),
                                                 None))))))))"

definition bump_total :: "server \<Rightarrow> server" where
  "bump_total s =
     s\<lparr>router := (router s)\<lparr>stats := (stats (router s))
          \<lparr>totalTriggers := totalTriggers (stats (router s)) + 1\<rparr>\<rparr>\<rparr>"

definition handleTriggerRequest :: "int \<Rightarrow> nat \<Rightarrow> server \<Rightarrow> trigger_msg \<Rightarrow> conn_id \<Rightarrow> server" where
  "handleTriggerRequest now rand s msg c =
     (case trigger_request_body now rand (bump_total s) msg c of
        (s1, None) \<Rightarrow> s1
      | (s1, Some e) \<Rightarrow>
          bump_failed
            (fst (send s1 c (createError (Some (t_id msg)) (route_error_text e)
                               ''TRIGGER_ROUTING_ERROR''))))"

text \<open>
  \<open>_routeResponse(triggerRecord, responseMessage)\<close>: when the original trigger named a
  destination, the target is that app's connection; otherwise the origin's.
\<close>

definition routeResponse :: "server \<Rightarrow> TriggerRecord \<Rightarrow> message \<Rightarrow> server \<times> route_error option" where
  "routeResponse s record responseMessage =
     (let orig = originalMessage record;
          target =
            (if truthy (destination orig) then
               (case map_of (apps (registry s)) (the (destination orig)) of
                  None \<Rightarrow> Inl (ResponseDestinationInactive (the (destination orig)))
                | Some targetApp \<Rightarrow>
                    if app_isActive s targetApp then Inr (connection targetApp)
                    else Inl (ResponseDestinationInactive (the (destination orig))))
             else Inr (originConnection record))
      in case target of
           Inl e \<Rightarrow> (s, Some e)
         | Inr None \<Rightarrow> (s, Some ResponseTargetInactive)
         | Inr (Some targetConnection) \<Rightarrow>
             if \<not> isActive (conns s targetConnection) then (s, Some ResponseTargetInactive)
             else
               (case send s targetConnection responseMessage of
                  (s1, False) \<Rightarrow> (s1, Some ResponseSendFailed)
                | (s1, True) \<Rightarrow> (s1, None)))"

definition bump_successful :: "server \<Rightarrow> server" where
  "bump_successful s =
     s\<lparr>router := (router s)\<lparr>stats := (stats (router s))
          \<lparr>successfulTriggers := successfulTriggers (stats (router s)) + 1\<rparr>\<rparr>\<rparr>"

text \<open>
  \<open>handleTriggerResponse(message, connection)\<close>, the handler of \<open>response\<close> messages: the
  correlation id is \<open>in_reply_to\<close>, else \<open>correlation_id\<close>.  An error of \<open>_routeResponse\<close>
  is caught and counted; the record then stays in the table.
\<close>

definition handleTriggerResponse :: "server \<Rightarrow> response_msg \<Rightarrow> conn_id \<Rightarrow> server" where
  "handleTriggerResponse s msg c =
     (let triggerId = (if truthy (in_reply_to msg) then in_reply_to msg else correlation_id msg)
      in if \<not> truthy triggerId then s
         else case map_of (triggerRecords (router s)) (the triggerId) of
                None \<Rightarrow> s
              | Some record \<Rightarrow>
                  (case routeResponse s record (Response msg) of
                     (s1, None) \<Rightarrow> cleanupTriggerRecord (bump_successful s1) (the triggerId)
                   | (s1, Some e) \<Rightarrow> bump_failed s1))"

text \<open>
  \<open>_handleError(connection, message)\<close>, the handler of \<open>error\<close> messages: only
  \<open>in_reply_to\<close> is read.  An error of \<open>_routeResponse\<close> is not caught here.
\<close>

definition handleError :: "server \<Rightarrow> error_msg \<Rightarrow> conn_id \<Rightarrow> server \<times> route_error option" where
  "handleError s msg c =
     (if \<not> truthy (e_in_reply_to msg) then (s, None)
      else case map_of (triggerRecords (router s)) (the (e_in_reply_to msg)) of
             None \<Rightarrow> (s, None)
           | Some record \<Rightarrow>
               (case routeResponse s record (Error msg) of
                  (s1, Some e) \<Rightarrow> (s1, Some e)
                | (s1, None) \<Rightarrow> (bump_failed (cleanupTriggerRecord s1 (rec_id record)), None)))"

section \<open>Auxiliary notions for the properties\<close>

text \<open>What \<open>_timeoutTriggerRecord\<close> writes for a record, given the connection store.\<close>

definition timeout_notice :: "(conn_id \<Rightarrow> Connection) \<Rightarrow> TriggerRecord
    \<Rightarrow> (conn_id \<times> message) list" where
  "timeout_notice cs record =
     (case originConnection record of
        None \<Rightarrow> []
      | Some c \<Rightarrow>
          if isActive (cs c) \<and> socketOk (cs c)
          then [(c, createTimeoutError (Some (t_id (originalMessage record))))]
          else [])"

text \<open>The time to live that the three defaults of a new record amount to.\<close>

definition effective_ttl :: "int option \<Rightarrow> int \<Rightarrow> int" where
  "effective_ttl t d = (if truthy_num t then the t else if d \<noteq> 0 then d else 30000)"



section \<open>Scenarios\<close>

text \<open>
  The server after initialisation: the two sentinel pools, no security module, every
  connection live.
\<close>

definition sentinel_config :: "pool_name \<Rightarrow> pool_config" where
  "sentinel_config nm =
     \<lparr>name = nm, ptype = ''local'', encrypted = False, owners = [],
      policies = Some getDefaultPolicies, maxMemoryBlocks = 1000, maxTriggers = 10000,
      security_prepared = False\<rparr>"

definition all_live :: "conn_id \<Rightarrow> Connection" where
  "all_live c = \<lparr>isActive = True, socketOk = True\<rparr>"

definition initial_server :: server where
  "initial_server =
     \<lparr>registry = \<lparr>apps = [], connections = [], triggerMappings = [], rehydrationCache = [],
                   lastSeenApps = [], persistedApps = [], persistenceWritable = True\<rparr>,
      poolManager = \<lparr>pools = [(''default'', []), (''system'', [])],
                      poolMetadata = [(''default'', sentinel_config ''default''),
                                      (''system'', sentinel_config ''system'')],
                      appPoolMembership = [],
                      poolMembership = [(''default'', []), (''system'', [])],
                      persistedPools = [(''default'', sentinel_config ''default''),
                                        (''system'', sentinel_config ''system'')]\<rparr>,
      router = \<lparr>triggerRecords = [],
                 stats = \<lparr>totalTriggers = 0, successfulTriggers = 0, failedTriggers = 0,
                          timeoutTriggers = 0, shortCircuitedCalls = 0\<rparr>,
                 defaultTTL = 30000, maxConcurrentTriggers = 10000, roundRobinCounters = []\<rparr>,
      security = None,
      conns = all_live,
      outbox = []\<rparr>"

definition no_properties :: pool_properties where
  "no_properties =
     \<lparr>prop_name = None, prop_type = None, prop_encrypted = None,
      prop_owners = None, prop_policies = None, prop_maxMemoryBlocks = None,
      prop_maxTriggers = None\<rparr>"

definition handshake_of :: "app_id \<Rightarrow> pool_name list option \<Rightarrow> trigger_name list option
    \<Rightarrow> handshake_msg" where
  "handshake_of a p t =
     \<lparr>h_id = Some (''hs-'' @ a), h_app_id = a, h_pools = p, h_triggers = t, h_metadata = None\<rparr>"

definition trigger_of :: "string \<Rightarrow> trigger_name \<Rightarrow> app_id option \<Rightarrow> int option \<Rightarrow> trigger_msg" where
  "trigger_of i t d l =
     \<lparr>t_id = i, origin = Some ''B'', destination = d, t_pool = None, trigger = Some t,
      process = None, ttl = l, payload = ''{x:1}''\<rparr>"

definition response_to :: "string \<Rightarrow> response_msg" where
  "response_to i =
     \<lparr>r_id = ''R1'', in_reply_to = Some i, correlation_id = None, status = ''success'',
      result = ''{x:1}''\<rparr>"

text \<open>
  App \<open>A\<close> registers the trigger \<open>echo\<close> in pool \<open>default\<close> on connection 1; app \<open>B\<close>
  registers no trigger on connection 2.
\<close>

definition two_apps :: server where
  "two_apps =
     fst (processHandshake 2
            (fst (processHandshake 1 initial_server
                    (handshake_of ''A'' (Some [''default'']) (Some [''echo''])) 1))
            (handshake_of ''B'' None (Some [])) 2)"

text \<open>\<open>B\<close> calls \<open>echo\<close> naming \<open>A\<close> as the destination (the echo round trip).\<close>

definition echo_in_flight :: server where
  "echo_in_flight =
     handleTriggerRequest 3 0 two_apps (trigger_of ''T1'' ''echo'' (Some ''A'') None) 2"

text \<open>\<open>B\<close> calls \<open>echo\<close> with no destination and a time to live of 60000 ms.\<close>

definition routed_in_flight :: server where
  "routed_in_flight =
     handleTriggerRequest 3 0 two_apps (trigger_of ''T3'' ''echo'' None (Some 60000)) 2"










text \<open>Example data: the block of the compare-and-swap scenario, and a block nobody may touch.\<close>

definition example_block :: MemoryBlock where
  "example_block =
     \<lparr>config = \<lparr>block_id = ''m'', size = 16,
                 permissions = Some [(READ, [''*'']), (WRITE, [''*'']), (EXECUTE, [])],
                 version = 1, updated = 0\<rparr>,
      buffer = Some (replicate 16 0), usesMmap = False, lastAccessed = 0\<rparr>"

definition example_manager :: MemoryManager where
  "example_manager =
     \<lparr>blocks = [(''m'', example_block)], stored = [], totalReads = 0, totalWrites = 0\<rparr>"

definition hello :: "byte list" where
  "hello = [104, 101, 108, 108, 111]"

definition world :: "byte list" where
  "world = [119, 111, 114, 108, 100]"


section \<open>Properties of memory blocks\<close>

lemma write_ok_version:
  assumes "write_block now io_ok b offset data = (b', Inr ok)"
  shows "version (config b') = version (config b) + 1"
  using assms by (auto simp: write_block_def Let_def split: option.splits if_splits)

lemma write_all_version:
  "write_all now io_ok b ws = (b', Inr ok) \<Longrightarrow>
     version (config b') = version (config b) + int (length ws)"
proof (induction ws arbitrary: b)
  case Nil
  then show ?case by simp
next
  case (Cons w ws)
  obtain offset data where w: "w = (offset, data)" by (cases w)
  obtain b1 r where s: "write_block now io_ok b offset data = (b1, r)"
    by (cases "write_block now io_ok b offset data")
  show ?case
  proof (cases r)
    case (Inl e)
    with Cons.prems w s show ?thesis by simp
  next
    case (Inr k)
    with Cons.prems w s have "write_all now io_ok b1 ws = (b', Inr ok)" by simp
    from Cons.IH[OF this] write_ok_version[OF s[unfolded Inr]] show ?thesis by simp
  qed
qed

lemma attach_version:
  "attachMemoryBlock m bid = (m1, Inr b) \<Longrightarrow>
     getBlockVersion m bid = Inr (Some (version (config b))) \<and> bid \<noteq> []"
  by (auto simp: attachMemoryBlock_def getBlockVersion_def split: option.splits if_splits)

lemma put_block_version:
  "bid \<noteq> [] \<Longrightarrow> getBlockVersion (put_block m bid b) bid = Inr (Some (version (config b)))"
  by (simp add: getBlockVersion_def put_block_def update_conv')

lemma read_version: "read now b offset len = (b1, r) \<Longrightarrow> version (config b1) = version (config b)"
  by (auto simp: read_def Let_def split: option.splits if_splits)

lemma writeMemoryBlock_version:
  assumes "writeMemoryBlock now io_ok m bid offset data = (m1, Inr ok)"
    and "getBlockVersion m bid = Inr (Some v)"
  shows "getBlockVersion m1 bid = Inr (Some (v + 1))"
proof -
  from assms(1) obtain m0 b where a: "attachMemoryBlock m bid = (m0, Inr b)"
    by (auto simp: writeMemoryBlock_def split: prod.splits sum.splits)
  obtain b1 r where w: "write_block now io_ok b offset data = (b1, r)"
    by (cases "write_block now io_ok b offset data")
  from assms(1) a w have r: "r = Inr ok"
    and m1: "m1 = put_block (m0\<lparr>totalWrites := totalWrites m0 + 1\<rparr>) bid b1"
    by (auto simp: writeMemoryBlock_def Let_def)
  from attach_version[OF a] assms(2) have "version (config b) = v" and "bid \<noteq> []" by simp_all
  with write_ok_version[OF w[unfolded r]] m1 show ?thesis by (simp add: put_block_version)
qed

lemma compareAndSwap_version:
  assumes "compareAndSwap now io_ok m bid offset expected new_value = (m1, Inr (CasSuccess p))"
    and "getBlockVersion m bid = Inr (Some v)"
  shows "getBlockVersion m1 bid = Inr (Some (v + 1))"
proof -
  from assms(1) obtain m0 b where a: "attachMemoryBlock m bid = (m0, Inr b)"
    by (auto simp: compareAndSwap_def split: prod.splits sum.splits)
  obtain b1 r where rd: "read now b offset (Some (length expected)) = (b1, r)"
    by (cases "read now b offset (Some (length expected))")
  obtain b2 w where w: "write_block now io_ok b1 offset new_value = (b2, w)"
    by (cases "write_block now io_ok b1 offset new_value")
  from assms(1) a rd w obtain ok where wr: "w = Inr ok" and m1: "m1 = put_block m0 bid b2"
    by (auto simp: compareAndSwap_def split: sum.splits if_splits)
  from attach_version[OF a] assms(2) have "version (config b) = v" and "bid \<noteq> []" by simp_all
  with read_version[OF rd] write_ok_version[OF w[unfolded wr]] m1 show ?thesis
    by (simp add: put_block_version)
qed


text \<open>
  C7.  Every successful write of a block adds exactly one to its version, so a run of
  successful writes adds its length; a successful compare-and-swap adds exactly one to the
  version the manager reports; and a successful write followed by a successful
  compare-and-swap on the same block adds two.
\<close>

theorem version_increments_per_write:
  "(write_block now io_ok b offset data = (b', Inr ok) \<longrightarrow>
      version (config b') = version (config b) + 1)
   \<and> (write_all now io_ok b ws = (b'', Inr ok') \<longrightarrow>
      version (config b'') = version (config b) + int (length ws))
   \<and> (getBlockVersion m bid = Inr (Some v) \<longrightarrow>
      compareAndSwap now io_ok m bid offset expected new_value = (m', Inr (CasSuccess p)) \<longrightarrow>
      getBlockVersion m' bid = Inr (Some (v + 1)))
   \<and> (getBlockVersion m bid = Inr (Some v) \<longrightarrow>
      writeMemoryBlock now io_ok m bid offset data = (m1, Inr ok) \<longrightarrow>
      compareAndSwap now2 io_ok2 m1 bid offset2 expected2 new_value2 = (m2, Inr (CasSuccess p2)) \<longrightarrow>
      getBlockVersion m2 bid = Inr (Some (v + 2)))"
proof (intro conjI impI)
  assume "write_block now io_ok b offset data = (b', Inr ok)"
  then show "version (config b') = version (config b) + 1" by (rule write_ok_version)
next
  assume "write_all now io_ok b ws = (b'', Inr ok')"
  then show "version (config b'') = version (config b) + int (length ws)"
    by (rule write_all_version)
next
  assume "getBlockVersion m bid = Inr (Some v)"
    and "compareAndSwap now io_ok m bid offset expected new_value = (m', Inr (CasSuccess p))"
  then show "getBlockVersion m' bid = Inr (Some (v + 1))"
    using compareAndSwap_version by blast
next
  assume v: "getBlockVersion m bid = Inr (Some v)"
    and w: "writeMemoryBlock now io_ok m bid offset data = (m1, Inr ok)"
    and c: "compareAndSwap now2 io_ok2 m1 bid offset2 expected2 new_value2 = (m2, Inr (CasSuccess p2))"
  from writeMemoryBlock_version[OF w v] have "getBlockVersion m1 bid = Inr (Some (v + 1))" .
  from compareAndSwap_version[OF c this] show "getBlockVersion m2 bid = Inr (Some (v + 2))" by simp
qed

lemma example_write:
  "writeMemoryBlock 1 True example_manager ''m'' 0 hello
     = (fst (writeMemoryBlock 1 True example_manager ''m'' 0 hello), Inr True)"
  by (simp add: writeMemoryBlock_def attachMemoryBlock_def example_manager_def example_block_def
      write_block_def hello_def Let_def)

lemma example_write_buffer:
  "map_of (blocks (fst (writeMemoryBlock 1 True example_manager ''m'' 0 hello))) ''m''
     = Some (example_block\<lparr>lastAccessed := 1, buffer := Some (hello @ replicate 11 0),
          config := (config example_block)\<lparr>version := 2, updated := 1\<rparr>\<rparr>)"
  by (simp add: writeMemoryBlock_def attachMemoryBlock_def example_manager_def example_block_def
      write_block_def hello_def Let_def put_block_def copy_def eval_nat_numeral)

lemma example_cas:
  "compareAndSwap 2 True (fst (writeMemoryBlock 1 True example_manager ''m'' 0 hello)) ''m'' 0
       hello world
     = (fst (compareAndSwap 2 True (fst (writeMemoryBlock 1 True example_manager ''m'' 0 hello))
               ''m'' 0 hello world),
        Inr (CasSuccess hello))"
proof -
  have "read 2 (example_block\<lparr>lastAccessed := 1, buffer := Some (hello @ replicate 11 0),
            config := (config example_block)\<lparr>version := 2, updated := 1\<rparr>\<rparr>) 0 (Some (length hello))
          = (example_block\<lparr>lastAccessed := 2, buffer := Some (hello @ replicate 11 0),
            config := (config example_block)\<lparr>version := 2, updated := 1\<rparr>\<rparr>, Inr hello)"
    by (simp add: read_def Let_def slice_def hello_def)
  moreover have "snd (write_block 2 True
          (example_block\<lparr>lastAccessed := 2, buffer := Some (hello @ replicate 11 0),
            config := (config example_block)\<lparr>version := 2, updated := 1\<rparr>\<rparr>) 0 world) = Inr True"
    by (simp add: write_block_def Let_def hello_def world_def)
  ultimately show ?thesis
    by (auto simp: compareAndSwap_def attachMemoryBlock_def example_write_buffer
        split: prod.splits sum.splits)
qed

theorem version_increments_per_write_witness:
  "getBlockVersion example_manager ''m'' = Inr (Some 1)
   \<and> getBlockVersion
        (fst (compareAndSwap 2 True (fst (writeMemoryBlock 1 True example_manager ''m'' 0 hello))
                ''m'' 0 hello world)) ''m'' = Inr (Some 3)"
proof -
  have v: "getBlockVersion example_manager ''m'' = Inr (Some 1)"
    by (simp add: getBlockVersion_def example_manager_def example_block_def)
  from version_increments_per_write
         [where m = example_manager and bid = "''m''" and v = 1 and now = 1 and io_ok = True
            and offset = 0 and data = hello and ok = True
            and ?m1.0 = "fst (writeMemoryBlock 1 True example_manager ''m'' 0 hello)"
            and ?now2.0 = 2 and ?io_ok2.0 = True and ?offset2.0 = 0 and ?expected2.0 = hello
            and ?new_value2.0 = world and ?p2.0 = hello
            and ?m2.0 = "fst (compareAndSwap 2 True
                    (fst (writeMemoryBlock 1 True example_manager ''m'' 0 hello)) ''m'' 0 hello world)"]
    v example_write example_cas
  show ?thesis by simp
qed

text \<open>
  C8 as stated fails in its last part: a write of zero bytes is a successful write, and it
  increments the version like any other.
\<close>

theorem zero_byte_write_increments_version:
  "snd (write_block 1 True example_block 0 []) = Inr True
   \<and> version (config example_block) = 1
   \<and> version (config (fst (write_block 1 True example_block 0 []))) = 2"
  by (simp add: write_block_def example_block_def Let_def)

text \<open>
  C8, amended.  On a block whose buffer has the block's size \<open>s\<close>: a read at offset \<open>s\<close> with
  no length returns no bytes; a write of one or more bytes at offset \<open>s\<close> is rejected as out
  of bounds and leaves bytes and version as they were; and a write of zero bytes at an offset
  up to \<open>s\<close> leaves the bytes as they were and is a write like any other: if the block is
  memory-mapped or its backing file can be written, it returns success and increments the
  version by one; otherwise it fails with the error of the file write and leaves the version
  as it was.
\<close>

theorem boundary_at_block_end:
  assumes "buffer b = Some buf" and "length buf = size (config b)"
  shows "snd (read now b (size (config b)) None) = Inr []
     \<and> (data \<noteq> [] \<longrightarrow>
          snd (write_block now io_ok b (size (config b)) data) = Inl WriteBeyondBounds
          \<and> buffer (fst (write_block now io_ok b (size (config b)) data)) = Some buf
          \<and> version (config (fst (write_block now io_ok b (size (config b)) data)))
              = version (config b))
     \<and> (offset \<le> size (config b) \<longrightarrow>
          buffer (fst (write_block now io_ok b offset [])) = Some buf
          \<and> snd (write_block now io_ok b offset [])
              = (if usesMmap b \<or> io_ok then Inr True else Inl WriteFileFailed)
          \<and> version (config (fst (write_block now io_ok b offset [])))
              = (if usesMmap b \<or> io_ok then version (config b) + 1 else version (config b)))"
proof (intro conjI impI)
  show "snd (read now b (size (config b)) None) = Inr []"
    using assms by (simp add: read_def Let_def slice_def)
next
  assume "data \<noteq> []"
  then have "size (config b) + length data > length buf" using assms(2) by (cases data) auto
  then show "snd (write_block now io_ok b (size (config b)) data) = Inl WriteBeyondBounds"
    and "buffer (fst (write_block now io_ok b (size (config b)) data)) = Some buf"
    and "version (config (fst (write_block now io_ok b (size (config b)) data)))
              = version (config b)"
    using assms(1) by (simp_all add: write_block_def Let_def)
next
  assume "offset \<le> size (config b)"
  then show "buffer (fst (write_block now io_ok b offset [])) = Some buf"
    and "snd (write_block now io_ok b offset [])
              = (if usesMmap b \<or> io_ok then Inr True else Inl WriteFileFailed)"
    and "version (config (fst (write_block now io_ok b offset [])))
              = (if usesMmap b \<or> io_ok then version (config b) + 1 else version (config b))"
    using assms by (auto simp: write_block_def Let_def copy_def)
qed

theorem boundary_at_block_end_witness:
  "buffer example_block = Some (replicate 16 0)
   \<and> length (replicate 16 (0::byte)) = size (config example_block)
   \<and> snd (read 1 example_block 16 None) = Inr []
   \<and> snd (write_block 1 True example_block 16 [7]) = Inl WriteBeyondBounds
   \<and> snd (write_block 1 True example_block 16 []) = Inr True
   \<and> version (config (fst (write_block 1 True example_block 16 []))) = 2
   \<and> snd (write_block 1 False example_block 16 []) = Inl WriteFileFailed
   \<and> version (config (fst (write_block 1 False example_block 16 []))) = 1"
proof -
  have b: "buffer example_block = Some (replicate 16 0)"
    and l: "length (replicate 16 (0::byte)) = size (config example_block)"
    and s: "size (config example_block) = 16" and v: "version (config example_block) = 1"
    and u: "\<not> usesMmap example_block"
    by (simp_all add: example_block_def)
  from boundary_at_block_end[OF b l, of 1 "[7]" True 16]
    boundary_at_block_end[OF b l, of 1 "[7]" False 16] b l s v u
  show ?thesis by simp
qed

section \<open>Properties of the pool manager\<close>

text \<open>
  C10.  Every call of \<open>createPool\<close> with the encrypted flag set, or with the type
  \<open>encrypted\<close> (which forces the flag), returns an error and leaves the pool manager,
  its durable pool table included, exactly as it was: no encrypted pool is ever created.
\<close>

theorem encrypted_pool_never_created:
  assumes "encrypted0 \<or> tp = ''encrypted''"
  shows "\<exists>e. createPool sec pm nm tp encrypted0 properties metadata = (pm, Inl e)"
proof (cases "nm = [] \<or> map_of (pools pm) nm \<noteq> None \<or> \<not> validatePoolType tp")
  case True
  then show ?thesis by (auto simp: createPool_def)
next
  case False
  define cfg where "cfg =
               \<lparr>name = spread nm (prop_name properties) (prop_name metadata),
                ptype = spread tp (prop_type properties) (prop_type metadata),
                encrypted = spread (if tp = ''encrypted'' \<and> \<not> encrypted0 then True else encrypted0)
                              (prop_encrypted properties) (prop_encrypted metadata),
                owners = spread [] (prop_owners properties) (prop_owners metadata),
                policies = Some (spread getDefaultPolicies (prop_policies properties)
                                   (prop_policies metadata)),
                maxMemoryBlocks = spread 1000 (prop_maxMemoryBlocks properties)
                                    (prop_maxMemoryBlocks metadata),
                maxTriggers = spread 10000 (prop_maxTriggers properties)
                                (prop_maxTriggers metadata),
                security_prepared = False\<rparr>"
  have enc: "(if tp = ''encrypted'' \<and> \<not> encrypted0 then True else encrypted0) = True"
    using assms by (cases encrypted0) simp_all
  have eq: "createPool sec pm nm tp encrypted0 properties metadata =
     (case validatePoolConfig cfg of
              Some e \<Rightarrow> (pm, Inl e)
            | None \<Rightarrow>
                  (case prepareEncryptedPool sec nm cfg of
                     Inl e \<Rightarrow> (pm, Inl e)
                   | Inr prepared \<Rightarrow> (pm, Inl AssignmentToConstant)))"
    unfolding createPool_def Let_def cfg_def[symmetric] using False by (simp only: enc if_True if_False) simp
  show ?thesis unfolding eq by (simp split: option.splits sum.splits)
qed

theorem encrypted_pool_never_created_witness:
  "createPool None (poolManager initial_server) ''vault'' ''encrypted'' False no_properties no_properties
     = (poolManager initial_server, Inl AssignmentToConstant)
   \<and> createPool None (poolManager initial_server) ''vault'' ''local'' True no_properties no_properties
     = (poolManager initial_server, Inl AssignmentToConstant)"
proof -
  have h1: "False \<or> ''encrypted'' = ''encrypted''" and h2: "True \<or> ''local'' = ''encrypted''" by simp_all
  have e1: "\<forall>e. createPool None (poolManager initial_server) ''vault'' ''encrypted'' False no_properties
                no_properties
              = (poolManager initial_server, Inl e) \<longrightarrow> e = AssignmentToConstant"
    and e2: "\<forall>e. createPool None (poolManager initial_server) ''vault'' ''local'' True no_properties
                no_properties
              = (poolManager initial_server, Inl e) \<longrightarrow> e = AssignmentToConstant"
    by (simp_all add: createPool_def initial_server_def no_properties_def validatePoolType_def spread_def
        validPoolTypes_def validatePoolConfig_def name_char_def prepareEncryptedPool_def Let_def)
  from encrypted_pool_never_created[OF h1, of None "poolManager initial_server" "''vault''" no_properties
         no_properties]
       encrypted_pool_never_created[OF h2, of None "poolManager initial_server" "''vault''" no_properties
         no_properties]
       e1 e2
  show ?thesis by auto
qed

section \<open>Properties of disconnection\<close>

lemma timeoutTriggerRecord_frame:
  "conns (timeoutTriggerRecord s r) = conns s"
  "registry (timeoutTriggerRecord s r) = registry s"
  "poolManager (timeoutTriggerRecord s r) = poolManager s"
  "security (timeoutTriggerRecord s r) = security s"
  "triggerRecords (router (timeoutTriggerRecord s r)) = AList.delete (rec_id r) (triggerRecords (router s))"
  "outbox (timeoutTriggerRecord s r) = outbox s @ timeout_notice (conns s) r"
  "timeoutTriggers (stats (router (timeoutTriggerRecord s r))) = timeoutTriggers (stats (router s)) + 1"
  by (auto simp: timeoutTriggerRecord_def cleanupTriggerRecord_def send_def Let_def timeout_notice_def
      split: option.splits)

lemma fold_timeout_frame:
  "conns (fold (\<lambda>record st. timeoutTriggerRecord st record) rs s) = conns s
   \<and> registry (fold (\<lambda>record st. timeoutTriggerRecord st record) rs s) = registry s
   \<and> poolManager (fold (\<lambda>record st. timeoutTriggerRecord st record) rs s) = poolManager s
   \<and> security (fold (\<lambda>record st. timeoutTriggerRecord st record) rs s) = security s
   \<and> triggerRecords (router (fold (\<lambda>record st. timeoutTriggerRecord st record) rs s))
       = fold (\<lambda>record t. AList.delete (rec_id record) t) rs (triggerRecords (router s))
   \<and> outbox (fold (\<lambda>record st. timeoutTriggerRecord st record) rs s)
       = outbox s @ concat (map (timeout_notice (conns s)) rs)
   \<and> timeoutTriggers (stats (router (fold (\<lambda>record st. timeoutTriggerRecord st record) rs s)))
       = timeoutTriggers (stats (router s)) + length rs"
proof (induction rs arbitrary: s)
  case Nil
  show ?case by simp
next
  case (Cons r rs)
  show ?case using Cons.IH[of "timeoutTriggerRecord s r"]
    by (simp add: timeoutTriggerRecord_frame)
qed

lemma map_of_fold_delete:
  "map_of (fold (\<lambda>record t. AList.delete (rec_id record) t) rs T) i
     = (if i \<in> rec_id ` set rs then None else map_of T i)"
  by (induction rs arbitrary: T) (auto simp: delete_conv)

lemma pending_ids:
  assumes d: "distinct (map fst T)" and k: "\<forall>(j, r) \<in> set T. rec_id r = j"
  shows "i \<in> rec_id ` set (filter P (map snd T)) \<longleftrightarrow> (\<exists>r. map_of T i = Some r \<and> P r)"
proof
  assume "i \<in> rec_id ` set (filter P (map snd T))"
  then obtain j r where "(j, r) \<in> set T" "P r" "rec_id r = i" by auto
  with k have "(i, r) \<in> set T" by auto
  with d have "map_of T i = Some r" by simp
  with \<open>P r\<close> show "\<exists>r. map_of T i = Some r \<and> P r" by blast
next
  assume "\<exists>r. map_of T i = Some r \<and> P r"
  then obtain r where m: "map_of T i = Some r" and "P r" by blast
  from m have "(i, r) \<in> set T" by (rule map_of_SomeD)
  with k \<open>P r\<close> show "i \<in> rec_id ` set (filter P (map snd T))" by force
qed

lemma handleAppDisconnection_frame:
  "poolManager (handleAppDisconnection s app) = poolManager s"
  "registry (handleAppDisconnection s app) = registry s"
  "conns (handleAppDisconnection s app) = conns s"
  "security (handleAppDisconnection s app) = security s"
  using fold_timeout_frame[of "pendingTriggers s app" s]
  by (simp_all add: handleAppDisconnection_def)

lemma handleDisconnection_poolManager:
  "poolManager (handleDisconnection s c) = poolManager s"
  by (simp add: handleDisconnection_def handleAppDisconnection_frame Let_def split: option.splits)

lemma handleDisconnection_bound:
  assumes "map_of (connections (registry s)) c = Some app" and "app \<noteq> []"
    and "map_of (apps (registry s)) app = Some registration"
  shows "persistedApps (registry (handleDisconnection s c)) = persistedApps (registry s)"
    and "rehydrationCache (registry (handleDisconnection s c))
           = AList.update app (cache_of registration) (rehydrationCache (registry s))"
    and "triggerMappings (registry (handleDisconnection s c))
           = fold (\<lambda>t tm. removeTriggerMapping tm t app) (app_triggers registration)
               (triggerMappings (registry s))"
    and "apps (registry (handleDisconnection s c)) = AList.delete app (apps (registry s))"
    and "poolManager (handleDisconnection s c) = poolManager s"
    and "security (handleDisconnection s c) = security s"
    and "conns (handleDisconnection s c) = conns s"
  using assms
  by (simp_all add: handleDisconnection_def Let_def handleAppDisconnection_frame)

lemma newTriggerRecord_has_no_origin_id:
  "originAppId (newTriggerRecord msg conn pl hs c0 t0) = None
   \<and> origin_app (newTriggerRecord msg conn pl hs c0 t0) = None"
  by (simp add: newTriggerRecord_def)

subsection \<open>Evaluation of the scenarios\<close>

lemmas pool_eval = addAppToPool_def hasPool_def getPool_def checkPoolAccess_pm_def policy_apps_def
  getDefaultPolicies_def set_add_def map_get_list_def validatePoolMembership_def getAppPools_def
  sentinel_config_def

lemmas registry_eval = processHandshake_def handshake_body_def validateHandshakeSchema_def
  requested_pools_def requested_triggers_def requested_metadata_def validateAppId_def
  validatePools_def validateTriggers_def validateTriggerName_def name_char_def trigger_char_def
  hasRehydrationData_def registerApp_def rehydrateApp_def persistAppRegistration_def cache_of_def
  protocolVersion_or_default_def
  addTriggerMapping_def removeTriggerMapping_def send_def createError_def handshake_of_def
  all_live_def

lemmas router_eval = handleTriggerRequest_def trigger_request_body_def bump_total_def bump_failed_def
  bump_shortCircuited_def bump_successful_def getAppByConnection_def getAppTriggers_def
  getTriggersHandlers_def findTriggerHandlers_def routeTrigger_def validateRouting_def
  optimizeLocalRouting_def selectDestination_def selectRoundRobin_def createTriggerRecord_def
  newTriggerRecord_def or_default_def dispatchTrigger_def selectHandler_def app_isActive_def
  app_send_def update_record_def cleanupTriggerRecord_def truthy_def truthy_num_def
  route_error_text_def quoted_def trigger_of_def List.map_filter_def

lemma two_apps_registry:
  "registry two_apps =
     \<lparr>apps = [(''A'', \<lparr>appId = ''A'', connection = Some 1, app_pools = [''default''],
                       app_triggers = [''echo''], meta = [],
                       protocolVersion = MString ''0.1.0'', registered = 1, rehydrated = False\<rparr>),
              (''B'', \<lparr>appId = ''B'', connection = Some 2, app_pools = [''default''],
                       app_triggers = [], meta = [],
                       protocolVersion = MString ''0.1.0'', registered = 2, rehydrated = False\<rparr>)],
      connections = [(1, ''A''), (2, ''B'')],
      triggerMappings = [(''echo'', [''A''])],
      rehydrationCache =
        [(''A'', \<lparr>cached_pools = [''default''], cached_triggers = [''echo''], cached_meta = [],
                  lastRegistered = 1\<rparr>),
         (''B'', \<lparr>cached_pools = [''default''], cached_triggers = [], cached_meta = [],
                  lastRegistered = 2\<rparr>)],
      lastSeenApps = [(''A'', 1), (''B'', 2)],
      persistedApps =
        [(''A'', \<lparr>data_pools = [''default''], data_triggers = [''echo''],
                  data_meta = [(''protocolVersion'', MString ''0.1.0''), (''rehydrated'', MBool False)]\<rparr>),
         (''B'', \<lparr>data_pools = [''default''], data_triggers = [],
                  data_meta = [(''protocolVersion'', MString ''0.1.0''), (''rehydrated'', MBool False)]\<rparr>)],
      persistenceWritable = True\<rparr>"
  by (simp add: two_apps_def initial_server_def registry_eval pool_eval Let_def)

lemma two_apps_poolManager:
  "poolManager two_apps =
     (poolManager initial_server)
       \<lparr>appPoolMembership := [(''A'', [''default'']), (''B'', [''default''])],
        poolMembership := [(''default'', [''A'', ''B'']), (''system'', [])],
        pools := [(''default'', [''A'', ''B'']), (''system'', [])]\<rparr>"
  by (simp add: two_apps_def initial_server_def registry_eval pool_eval Let_def)

lemma two_apps_rest:
  "router two_apps = router initial_server"
  "conns two_apps = all_live"
  "security two_apps = None"
  "outbox two_apps =
     [(1, HandshakeAck \<lparr>ack_correlation_id = Some ''hs-A'', ack_status = ''success'',
                        assigned_app_id = ''A'', assigned_pools = [''default''],
                        assigned_triggers = [''echo''], assigned_rehydrated = False\<rparr>),
      (2, HandshakeAck \<lparr>ack_correlation_id = Some ''hs-B'', ack_status = ''success'',
                        assigned_app_id = ''B'', assigned_pools = [''default''],
                        assigned_triggers = [], assigned_rehydrated = False\<rparr>)]"
  by (simp_all add: two_apps_def initial_server_def registry_eval pool_eval Let_def)

lemmas two_apps_eval = two_apps_registry two_apps_poolManager two_apps_rest initial_server_def

lemma echo_in_flight_router:
  "triggerRecords (router echo_in_flight) =
     [(''T1'',
       \<lparr>rec_id = ''T1'',
        originalMessage = trigger_of ''T1'' ''echo'' (Some ''A'') None,
        originConnection = Some 2, rec_pool = Some ''default'', handlers = [''A''],
        created = 3, rec_ttl = 30000, dispatched = Some 3, dispatchedTo = Some ''A'',
        timeoutId = True, completed = False, originAppId = None, origin_app = None\<rparr>)]"
  by (simp add: echo_in_flight_def two_apps_eval router_eval pool_eval send_def all_live_def Let_def)

lemma echo_in_flight_rest:
  "registry echo_in_flight = registry two_apps"
  "conns echo_in_flight = all_live"
  "outbox echo_in_flight = outbox two_apps @ [(1, Trigger (trigger_of ''T1'' ''echo'' (Some ''A'') None))]"
  "stats (router echo_in_flight) = \<lparr>totalTriggers = 1, successfulTriggers = 0, failedTriggers = 0,
                          timeoutTriggers = 0, shortCircuitedCalls = 0\<rparr>"
  by (simp_all add: echo_in_flight_def two_apps_eval router_eval pool_eval send_def all_live_def Let_def)

lemma routed_in_flight_router:
  "triggerRecords (router routed_in_flight) =
     [(''T3'',
       \<lparr>rec_id = ''T3'',
        originalMessage = trigger_of ''T3'' ''echo'' None (Some 60000),
        originConnection = Some 2, rec_pool = Some ''default'', handlers = [''A''],
        created = 3, rec_ttl = 60000, dispatched = Some 3, dispatchedTo = Some ''A'',
        timeoutId = True, completed = False, originAppId = None, origin_app = None\<rparr>)]"
  "defaultTTL (router routed_in_flight) = 30000"
  by (simp_all add: routed_in_flight_def two_apps_eval router_eval pool_eval send_def all_live_def Let_def)

lemma routed_in_flight_rest:
  "registry routed_in_flight = registry two_apps"
  "conns routed_in_flight = all_live"
  "outbox routed_in_flight = outbox two_apps @ [(1, Trigger (trigger_of ''T3'' ''echo'' None (Some 60000)))]"
  by (simp_all add: routed_in_flight_def two_apps_eval router_eval pool_eval send_def all_live_def Let_def)

subsection \<open>Records of a disconnected app\<close>

text \<open>
  What \<open>_handleAppDisconnection\<close> does to a table keyed by record id: every record whose
  \<open>originAppId\<close> or \<open>origin\<close> property is the app is timed out, that is, removed from the
  table with an error of code \<open>TIMEOUT\<close> written to the record's origin connection if that
  is live; every other record, also one dispatched to the app, stays unchanged.
\<close>

lemma handleAppDisconnection_selects_by_property:
  assumes d: "distinct (map fst (triggerRecords (router s)))"
    and k: "\<forall>(j, r) \<in> set (triggerRecords (router s)). rec_id r = j"
    and m: "map_of (triggerRecords (router s)) i = Some r"
  shows "(originAppId r = Some app \<or> origin_app r = Some app \<longrightarrow>
            map_of (triggerRecords (router (handleAppDisconnection s app))) i = None
            \<and> (\<forall>c. originConnection r = Some c \<and> isActive (conns s c) \<and> socketOk (conns s c) \<longrightarrow>
                  (\<exists>ms. outbox (handleAppDisconnection s app) = outbox s @ ms
                     \<and> (c, createTimeoutError (Some (t_id (originalMessage r)))) \<in> set ms)))
       \<and> (originAppId r \<noteq> Some app \<and> origin_app r \<noteq> Some app \<longrightarrow>
            map_of (triggerRecords (router (handleAppDisconnection s app))) i = Some r)"
proof -
  let ?P = "\<lambda>record. originAppId record = Some app \<or> origin_app record = Some app"
  let ?T = "triggerRecords (router s)"
  let ?rs = "filter ?P (map snd ?T)"
  have fr: "triggerRecords (router (handleAppDisconnection s app))
              = fold (\<lambda>record t. AList.delete (rec_id record) t) ?rs ?T"
    and ob: "outbox (handleAppDisconnection s app) = outbox s @ concat (map (timeout_notice (conns s)) ?rs)"
    using fold_timeout_frame[of ?rs s] by (simp_all add: handleAppDisconnection_def pendingTriggers_def)
  have ids: "i \<in> rec_id ` set ?rs \<longleftrightarrow> ?P r"
    using pending_ids[OF d k, of i ?P] m by simp
  have tab: "map_of (triggerRecords (router (handleAppDisconnection s app))) i = (if ?P r then None else Some r)"
    unfolding fr map_of_fold_delete using ids m by simp
  have mem: "?P r \<Longrightarrow> r \<in> set ?rs"
    using map_of_SomeD[OF m] by force
  show ?thesis
  proof (intro conjI impI allI)
    assume "?P r"
    then show "map_of (triggerRecords (router (handleAppDisconnection s app))) i = None"
      using tab by simp
  next
    fix c
    assume p: "?P r" and c: "originConnection r = Some c \<and> isActive (conns s c) \<and> socketOk (conns s c)"
    from c have "(c, createTimeoutError (Some (t_id (originalMessage r)))) \<in> set (timeout_notice (conns s) r)"
      by (simp add: timeout_notice_def)
    with mem[OF p] have "(c, createTimeoutError (Some (t_id (originalMessage r))))
        \<in> set (concat (map (timeout_notice (conns s)) ?rs))" by auto
    with ob show "\<exists>ms. outbox (handleAppDisconnection s app) = outbox s @ ms
                     \<and> (c, createTimeoutError (Some (t_id (originalMessage r)))) \<in> set ms" by blast
  next
    assume "originAppId r \<noteq> Some app \<and> origin_app r \<noteq> Some app"
    then show "map_of (triggerRecords (router (handleAppDisconnection s app))) i = Some r"
      using tab by simp
  qed
qed

text \<open>
  The record of a call that is dispatched to \<open>A\<close> survives the disconnection of \<open>A\<close>:
  the filter looks at the origin only.
\<close>

lemma disconnect_of_destination_leaves_record:
  "map_option dispatchedTo (map_of (triggerRecords (router routed_in_flight)) ''T3'') = Some (Some ''A'')
   \<and> map_of (connections (registry routed_in_flight)) 1 = Some ''A''
   \<and> isActive (conns routed_in_flight 2)
   \<and> triggerRecords (router (handleDisconnection routed_in_flight 1)) = triggerRecords (router routed_in_flight)
   \<and> outbox (handleDisconnection routed_in_flight 1) = outbox routed_in_flight"
  by (simp add: handleDisconnection_def handleAppDisconnection_def pendingTriggers_def
      routed_in_flight_router routed_in_flight_rest(1,2) two_apps_registry all_live_def Let_def)

text \<open>
  When no record of the table carries either property, the listener changes nothing.
\<close>

lemma handleAppDisconnection_without_origin_property:
  assumes "\<forall>(j, r) \<in> set (triggerRecords (router s)). originAppId r = None \<and> origin_app r = None"
  shows "handleAppDisconnection s app = s"
proof -
  have "pendingTriggers s app = []"
    using assms by (auto simp: pendingTriggers_def filter_empty_conv)
  then show ?thesis by (simp add: handleAppDisconnection_def)
qed

text \<open>
  C2 (the code at the failing input).  The constructor of \<open>TriggerRecord\<close> sets neither
  \<open>originAppId\<close> nor \<open>origin\<close>, the two properties by which \<open>_handleAppDisconnection\<close>
  finds the pending triggers of an app.  \<open>B\<close>, bound to connection 2, has called \<open>echo\<close>;
  the record \<open>T3\<close> has connection 2 as its origin connection and a message whose origin is
  \<open>B\<close>.  When \<open>B\<close> disconnects, the registration of \<open>B\<close> is dropped, but the record stays
  in the in-flight table and nothing is written to any connection.
\<close>

theorem disconnect_of_origin_leaves_record:
  "originAppId (newTriggerRecord msg conn pl hs c0 t0) = None
   \<and> origin_app (newTriggerRecord msg conn pl hs c0 t0) = None
   \<and> map_of (connections (registry routed_in_flight)) 2 = Some ''B''
   \<and> map_option originConnection (map_of (triggerRecords (router routed_in_flight)) ''T3'')
       = Some (Some 2)
   \<and> map_option origin
        (map_option originalMessage (map_of (triggerRecords (router routed_in_flight)) ''T3''))
       = Some (Some ''B'')
   \<and> map_of (apps (registry (handleDisconnection routed_in_flight 2))) ''B'' = None
   \<and> triggerRecords (router (handleDisconnection routed_in_flight 2))
       = triggerRecords (router routed_in_flight)
   \<and> outbox (handleDisconnection routed_in_flight 2) = outbox routed_in_flight"
  by (simp add: handleDisconnection_def handleAppDisconnection_def pendingTriggers_def
      routed_in_flight_router routed_in_flight_rest(1,2) two_apps_registry all_live_def
      trigger_of_def newTriggerRecord_def removeTriggerMapping_def Let_def)

text \<open>
  C9 (the code at the failing input).  \<open>handleDisconnection\<close> never touches the pool
  manager.  After \<open>A\<close> of the two-app scenario disconnects, its registration is gone from
  the live map, its trigger-index entry is removed and its cache entry holds pools, triggers
  and metadata, but \<open>A\<close> is still a member of pool \<open>default\<close> in both directions of the
  membership index.
\<close>

theorem disconnect_keeps_pool_membership:
  "poolManager (handleDisconnection s c) = poolManager s
   \<and> map_of (connections (registry two_apps)) 1 = Some ''A''
   \<and> map_of (apps (registry (handleDisconnection two_apps 1))) ''A'' = None
   \<and> map_of (triggerMappings (registry (handleDisconnection two_apps 1))) ''echo'' = None
   \<and> map_of (rehydrationCache (registry (handleDisconnection two_apps 1))) ''A''
       = Some \<lparr>cached_pools = [''default''], cached_triggers = [''echo''], cached_meta = [],
               lastRegistered = 1\<rparr>
   \<and> validatePoolMembership (poolManager (handleDisconnection two_apps 1)) ''A'' ''default''
   \<and> ''A'' \<in> set (map_get_list (poolMembership (poolManager (handleDisconnection two_apps 1))) ''default'')"
proof -
  have c: "map_of (connections (registry two_apps)) 1 = Some ''A''"
    and a: "map_of (apps (registry two_apps)) ''A''
              = Some \<lparr>appId = ''A'', connection = Some 1, app_pools = [''default''],
                       app_triggers = [''echo''], meta = [],
                       protocolVersion = MString ''0.1.0'', registered = 1, rehydrated = False\<rparr>"
    by (simp_all add: two_apps_registry)
  have ne: "''A'' \<noteq> []" by simp
  note hd = handleDisconnection_bound[OF c ne a]
  have "map_of (apps (registry (handleDisconnection two_apps 1))) ''A'' = None"
    unfolding hd(4) by (simp add: delete_conv)
  moreover have "map_of (triggerMappings (registry (handleDisconnection two_apps 1))) ''echo'' = None"
    unfolding hd(3) by (simp add: two_apps_registry removeTriggerMapping_def)
  moreover have "map_of (rehydrationCache (registry (handleDisconnection two_apps 1))) ''A''
       = Some \<lparr>cached_pools = [''default''], cached_triggers = [''echo''], cached_meta = [],
               lastRegistered = 1\<rparr>"
    unfolding hd(2) by (simp add: update_conv' cache_of_def)
  moreover have "validatePoolMembership (poolManager (handleDisconnection two_apps 1)) ''A'' ''default''"
    and "''A'' \<in> set (map_get_list (poolMembership (poolManager (handleDisconnection two_apps 1))) ''default'')"
    unfolding hd(5) by (simp_all add: two_apps_poolManager validatePoolMembership_def map_get_list_def)
  ultimately show ?thesis using c handleDisconnection_poolManager by simp
qed

section \<open>Properties of trigger requests\<close>

lemma selectRoundRobin_frame:
  "selectRoundRobin s hs = (s', res) \<Longrightarrow>
     triggerRecords (router s') = triggerRecords (router s) \<and> defaultTTL (router s') = defaultTTL (router s)"
  by (auto simp: selectRoundRobin_def Let_def split: list.splits)

lemma selectDestination_frame:
  "selectDestination s hs = (s', res) \<Longrightarrow>
     triggerRecords (router s') = triggerRecords (router s) \<and> defaultTTL (router s') = defaultTTL (router s)"
  by (auto simp: selectDestination_def Let_def split: list.splits dest: selectRoundRobin_frame)

lemma bump_shortCircuited_frame:
  "triggerRecords (router (bump_shortCircuited s)) = triggerRecords (router s)"
  "defaultTTL (router (bump_shortCircuited s)) = defaultTTL (router s)"
  by (simp_all add: bump_shortCircuited_def)

lemma routeTrigger_frame:
  assumes "routeTrigger s m = (s', res)"
  shows "triggerRecords (router s') = triggerRecords (router s) \<and> defaultTTL (router s') = defaultTTL (router s)"
proof (cases "truthy (trigger m)")
  case False
  with assms show ?thesis by (simp add: routeTrigger_def)
next
  case t: True
  show ?thesis
  proof (cases "truthy (destination m)")
    case True
    with t assms show ?thesis
      by (auto simp: routeTrigger_def Let_def bump_shortCircuited_frame split: option.splits if_splits)
  next
    case False
    obtain s1 d where sd: "selectDestination s (findTriggerHandlers s (the (trigger m))
        (if truthy (t_pool m) then the (t_pool m) else ''default'')) = (s1, d)"
      by (cases "selectDestination s (findTriggerHandlers s (the (trigger m))
        (if truthy (t_pool m) then the (t_pool m) else ''default''))")
    from selectDestination_frame[OF sd] False t assms sd show ?thesis
      by (auto simp: routeTrigger_def Let_def bump_shortCircuited_frame split: option.splits if_splits)
  qed
qed


lemma or_default_chain:
  "or_default (or_default (if truthy_num t then the t else d) d) 30000 = effective_ttl t d"
  by (auto simp: or_default_def effective_ttl_def truthy_num_def split: option.splits)

lemma createTriggerRecord_result:
  assumes "createTriggerRecord now s i orig msg conn pl hs c0 t0 = (s', res)"
  shows "(case res of
            Inl e \<Rightarrow> s' = s
          | Inr record \<Rightarrow>
              triggerRecords (router s') = AList.update i record (triggerRecords (router s))
              \<and> rec_ttl record = or_default (or_default t0 (defaultTTL (router s))) 30000
              \<and> rec_id record = t_id msg
              \<and> defaultTTL (router s') = defaultTTL (router s))"
  using assms
  by (auto simp: createTriggerRecord_def newTriggerRecord_def Let_def split: if_splits)

lemma update_record_lookup:
  "map_of (triggerRecords (router (update_record s i f))) j
     = (if j = i then map_option f (map_of (triggerRecords (router s)) i)
        else map_of (triggerRecords (router s)) j)"
  by (auto simp: update_record_def update_conv' split: option.splits)

lemma send_frame:
  "router (fst (send s c m)) = router s"
  "send s c m = (s', ok) \<Longrightarrow> router s' = router s"
  by (auto simp: send_def split: if_splits)

lemma app_send_frame:
  "app_send s a m = (s', ok) \<Longrightarrow> router s' = router s"
  by (auto simp: app_send_def split: option.splits if_splits dest: send_frame(2))

lemma bump_failed_frame:
  "triggerRecords (router (bump_failed s)) = triggerRecords (router s)"
  by (simp add: bump_failed_def)

lemma cleanup_lookup:
  "map_of (triggerRecords (router (cleanupTriggerRecord s i))) j
     = (if j = i then None else map_of (triggerRecords (router s)) j)"
  by (simp add: cleanupTriggerRecord_def delete_conv)

text \<open>After dispatch, the record under its id is gone or keeps its time to live.\<close>

lemma dispatchTrigger_ttl:
  assumes "dispatchTrigger now rand s record hs = (s', res)"
    and "map_of (triggerRecords (router s)) (rec_id record) = Some record"
  shows "map_of (triggerRecords (router s')) (rec_id record) = None
       \<or> (\<exists>r. map_of (triggerRecords (router s')) (rec_id record) = Some r \<and> rec_ttl r = rec_ttl record)"
proof (cases "selectHandler s rand hs")
  case None
  with assms show ?thesis by (simp add: dispatchTrigger_def)
next
  case (Some h)
  show ?thesis
  proof (cases "app_isActive s h")
    case False
    with Some assms show ?thesis by (simp add: dispatchTrigger_def)
  next
    case act: True
    show ?thesis
    proof (cases "(case (case originConnection record of None \<Rightarrow> None | Some c \<Rightarrow> getAppByConnection s c)
                    of None \<Rightarrow> False | Some a \<Rightarrow> appId a = appId h)")
      case True
      with Some act assms(1) have "s' = cleanupTriggerRecord (bump_failed (case originConnection record of
                                  None \<Rightarrow> s
                                | Some c \<Rightarrow>
                                    if isActive (conns s c) then fst (send s c (createError (Some (t_id (originalMessage record)))
                              ''Intra-process trigger calls not yet supported''
                              ''SHORT_CIRCUIT_NOT_IMPLEMENTED'')) else s)) (rec_id record)"
        by (simp add: dispatchTrigger_def Let_def)
      then show ?thesis by (simp add: cleanup_lookup)
    next
      case False
      obtain s1 ok where snd: "app_send s h (Trigger (originalMessage record)) = (s1, ok)"
        by (cases "app_send s h (Trigger (originalMessage record))")
      from app_send_frame[OF snd] have r1: "router s1 = router s" .
      show ?thesis
      proof (cases ok)
        case True
        with Some act False snd assms(1) have "s' = update_record s1 (rec_id record)
                             (\<lambda>r. r\<lparr>dispatchedTo := Some (appId h), dispatched := Some now\<rparr>)"
          by (simp add: dispatchTrigger_def Let_def)
        then show ?thesis using assms(2) r1 by (simp add: update_record_lookup)
      next
        case f: False
        with Some act False snd assms(1) have "s' = s1"
          by (simp add: dispatchTrigger_def Let_def)
        then show ?thesis using assms(2) r1 by simp
      qed
    qed
  qed
qed


lemma trigger_request_body_ttl:
  assumes b: "trigger_request_body now rand s msg c = (s', res)"
    and n: "map_of (triggerRecords (router s)) (t_id msg) = None"
    and m: "map_of (triggerRecords (router s')) (t_id msg) = Some r"
  shows "rec_ttl r = effective_ttl (ttl msg) (defaultTTL (router s))"
proof -
  let ?i = "t_id msg"
  let ?pool = "(if truthy (t_pool msg) then the (t_pool msg) else ''default'')"
  have full: "\<not> length (triggerRecords (router s)) \<ge> maxConcurrentTriggers (router s)"
    using b n m by (auto simp: trigger_request_body_def)
  obtain originApp where oa: "getAppByConnection s c = Some originApp"
    using b n m full by (cases "getAppByConnection s c") (auto simp: trigger_request_body_def Let_def)
  obtain pm1 pr where gp: "getPool (poolManager s) ?pool = (pm1, pr)"
    by (cases "getPool (poolManager s) ?pool")
  obtain pool where pr: "pr = Inr (Some pool)"
    using b n m full oa gp
    by (cases pr; cases "projr pr") (auto simp: trigger_request_body_def Let_def)
  let ?s1 = "s\<lparr>poolManager := pm1\<rparr>"
  let ?msg1 = "msg\<lparr>origin := Some (appId originApp)\<rparr>"
  have mem: "validatePoolMembership (poolManager ?s1) (appId originApp) ?pool"
    using b n m full oa gp pr by (auto simp: trigger_request_body_def Let_def split: if_splits)
  obtain s2 rr where rt: "routeTrigger ?s1 ?msg1 = (s2, rr)"
    by (cases "routeTrigger ?s1 ?msg1")
  from routeTrigger_frame[OF rt] have t2: "triggerRecords (router s2) = triggerRecords (router s)"
    and d2: "defaultTTL (router s2) = defaultTTL (router s)" by simp_all
  obtain dest hs where rr: "rr = Inr (dest, hs)"
    using b n m full oa gp pr mem rt t2
    by (cases rr) (auto simp: trigger_request_body_def Let_def)
  let ?t0 = "(if truthy_num (ttl ?msg1) then the (ttl ?msg1) else defaultTTL (router s2))"
  obtain s3 cr where ct: "createTriggerRecord now s2 ?i (appId originApp) ?msg1 c ?pool (map appId hs) now ?t0
      = (s3, cr)"
    by (cases "createTriggerRecord now s2 ?i (appId originApp) ?msg1 c ?pool (map appId hs) now ?t0")
  have step: "trigger_request_body now rand s msg c =
      (case cr of
         Inl e \<Rightarrow> (s3, Some e)
       | Inr record \<Rightarrow>
           (case dispatchTrigger now rand s3 record [dest] of
              (s4, Some e) \<Rightarrow> (s4, Some e)
            | (s4, None) \<Rightarrow> (update_record s4 ?i (\<lambda>r. r\<lparr>timeoutId := True\<rparr>), None)))"
    using full oa gp pr mem rt rr ct by (simp add: trigger_request_body_def Let_def)
  from createTriggerRecord_result[OF ct] have cres: "(case cr of
            Inl e \<Rightarrow> s3 = s2
          | Inr record \<Rightarrow>
              triggerRecords (router s3) = AList.update ?i record (triggerRecords (router s2))
              \<and> rec_ttl record = or_default (or_default ?t0 (defaultTTL (router s2))) 30000
              \<and> rec_id record = t_id ?msg1
              \<and> defaultTTL (router s3) = defaultTTL (router s2))" .
  show ?thesis
  proof (cases cr)
    case (Inl e)
    with step b cres t2 n m show ?thesis by simp
  next
    case (Inr rcd)
    with cres have t3: "triggerRecords (router s3) = AList.update ?i rcd (triggerRecords (router s2))"
      and ttl: "rec_ttl rcd = or_default (or_default ?t0 (defaultTTL (router s2))) 30000"
      and rid: "rec_id rcd = ?i" by simp_all
    from ttl d2 have "rec_ttl rcd = or_default (or_default (if truthy_num (ttl msg) then the (ttl msg)
            else defaultTTL (router s)) (defaultTTL (router s))) 30000" by simp
    then have ttl': "rec_ttl rcd = effective_ttl (ttl msg) (defaultTTL (router s))"
      by (simp only: or_default_chain)
    have look: "map_of (triggerRecords (router s3)) (rec_id rcd) = Some rcd"
      using t3 rid by (simp add: update_conv')
    obtain s4 dr where dt: "dispatchTrigger now rand s3 rcd [dest] = (s4, dr)"
      by (cases "dispatchTrigger now rand s3 rcd [dest]")
    from dispatchTrigger_ttl[OF dt look] rid
    have after: "map_of (triggerRecords (router s4)) ?i = None
       \<or> (\<exists>r. map_of (triggerRecords (router s4)) ?i = Some r \<and> rec_ttl r = rec_ttl rcd)" by simp
    show ?thesis
    proof (cases dr)
      case (Some e)
      with step b Inr dt have "s' = s4" by simp
      with after m ttl' show ?thesis by auto
    next
      case None
      with step b Inr dt have "s' = update_record s4 ?i (\<lambda>r. r\<lparr>timeoutId := True\<rparr>)" by simp
      with after m ttl' show ?thesis by (auto simp: update_record_lookup)
    qed
  qed
qed

text \<open>
  C3 as stated fails.  The router's default time to live is 30000 ms; a request with
  \<open>ttl = 60000\<close> gets a record with a time to live of 60000 ms, above the default and so
  above every minimum taken with it.
\<close>

theorem ttl_above_default_kept:
  "ttl (trigger_of ''T3'' ''echo'' None (Some 60000)) = Some 60000
   \<and> defaultTTL (router two_apps) = 30000
   \<and> map_option rec_ttl (map_of (triggerRecords (router routed_in_flight)) ''T3'') = Some 60000"
  by (simp add: routed_in_flight_router two_apps_rest initial_server_def trigger_of_def)

text \<open>
  C3, amended.  A record that \<open>handleTriggerRequest\<close> creates (none was in the table under
  the message id before, one is after) has as time to live the message's \<open>ttl\<close> when that
  is present and not zero, and otherwise the router's default (30000 ms if that is unset).
  There is no maximum.
\<close>

theorem record_ttl_is_message_ttl_or_default:
  assumes "map_of (triggerRecords (router s)) (t_id msg) = None"
    and "map_of (triggerRecords (router (handleTriggerRequest now rand s msg c))) (t_id msg) = Some r"
  shows "rec_ttl r = (if truthy_num (ttl msg) then the (ttl msg)
                      else if defaultTTL (router s) \<noteq> 0 then defaultTTL (router s) else 30000)"
proof -
  obtain s1 res where b: "trigger_request_body now rand (bump_total s) msg c = (s1, res)"
    by (cases "trigger_request_body now rand (bump_total s) msg c")
  have n: "map_of (triggerRecords (router (bump_total s))) (t_id msg) = None"
    using assms(1) by (simp add: bump_total_def)
  have "triggerRecords (router (handleTriggerRequest now rand s msg c)) = triggerRecords (router s1)"
    using b by (simp add: handleTriggerRequest_def bump_failed_frame send_frame split: option.splits)
  with assms(2) have m: "map_of (triggerRecords (router s1)) (t_id msg) = Some r" by simp
  from trigger_request_body_ttl[OF b n m] show ?thesis
    by (simp add: effective_ttl_def bump_total_def)
qed

theorem record_ttl_is_message_ttl_or_default_witness:
  "map_of (triggerRecords (router two_apps)) ''T3'' = None
   \<and> map_option rec_ttl (map_of (triggerRecords (router
        (handleTriggerRequest 3 0 two_apps (trigger_of ''T3'' ''echo'' None (Some 60000)) 2))) ''T3'')
      = Some 60000"
proof -
  let ?m = "trigger_of ''T3'' ''echo'' None (Some 60000)"
  let ?R = "\<lparr>rec_id = ''T3'',
        originalMessage = trigger_of ''T3'' ''echo'' None (Some 60000),
        originConnection = Some 2, rec_pool = Some ''default'', handlers = [''A''],
        created = 3, rec_ttl = 60000, dispatched = Some 3, dispatchedTo = Some ''A'',
        timeoutId = True, completed = False, originAppId = None, origin_app = None\<rparr>"
  have i: "t_id ?m = ''T3''" and t: "ttl ?m = Some 60000" by (simp_all add: trigger_of_def)
  have n: "map_of (triggerRecords (router two_apps)) (t_id ?m) = None"
    by (simp add: two_apps_rest initial_server_def)
  have m: "map_of (triggerRecords (router (handleTriggerRequest 3 0 two_apps ?m 2))) (t_id ?m) = Some ?R"
    using routed_in_flight_router(1) by (simp add: routed_in_flight_def i)
  from record_ttl_is_message_ttl_or_default[OF n m] n m show ?thesis
    by (simp add: i t truthy_num_def)
qed

text \<open>
  C5 (the code at the failing input).  No app handles \<open>ghost\<close>.  The request of \<open>B\<close> is
  answered on its connection with an error whose code is \<open>TRIGGER_ROUTING_ERROR\<close>, not
  \<open>NOT_FOUND\<close>; it is counted as a failed trigger and leaves no record.
\<close>

theorem no_handler_error_code:
  "findTriggerHandlers two_apps ''ghost'' ''default'' = []
   \<and> outbox (handleTriggerRequest 3 0 two_apps (trigger_of ''T2'' ''ghost'' None None) 2)
       = outbox two_apps @
           [(2, Error \<lparr>e_in_reply_to = None, e_correlation_id = Some ''T2'',
                       error_text = ''No handlers found for trigger: ghost in pool: default'',
                       error_code = ''TRIGGER_ROUTING_ERROR''\<rparr>)]
   \<and> failedTriggers (stats (router (handleTriggerRequest 3 0 two_apps
          (trigger_of ''T2'' ''ghost'' None None) 2))) = failedTriggers (stats (router two_apps)) + 1
   \<and> triggerRecords (router (handleTriggerRequest 3 0 two_apps
          (trigger_of ''T2'' ''ghost'' None None) 2)) = []"
  by (simp add: two_apps_eval router_eval pool_eval send_def createError_def all_live_def Let_def)

section \<open>Properties of responses\<close>

text \<open>
  When the original trigger named no destination and the origin's connection is live, the
  response goes to the origin's connection and the record is removed.
\<close>

lemma response_without_destination_goes_to_origin:
  assumes "map_of (triggerRecords (router s)) i = Some r" and "i \<noteq> []"
    and "in_reply_to msg = Some i"
    and "\<not> truthy (destination (originalMessage r))"
    and "originConnection r = Some c" and "isActive (conns s c)" and "socketOk (conns s c)"
  shows "outbox (handleTriggerResponse s msg c') = outbox s @ [(c, Response msg)]
       \<and> map_of (triggerRecords (router (handleTriggerResponse s msg c'))) i = None"
  using assms
  by (simp add: handleTriggerResponse_def routeResponse_def truthy_def send_def
      cleanupTriggerRecord_def bump_successful_def delete_conv Let_def)

text \<open>
  C1 (the code at the failing input).  In the echo round trip \<open>B\<close>, bound to connection
  2, calls \<open>echo\<close> and names \<open>A\<close>, bound to connection 1, as the destination; the record's
  origin connection is 2.  The response of \<open>A\<close> is written to connection 1, the
  destination's own, and nothing is written to connection 2.
\<close>

theorem response_goes_to_named_destination:
  "map_of (connections (registry echo_in_flight)) 2 = Some ''B''
   \<and> map_of (connections (registry echo_in_flight)) 1 = Some ''A''
   \<and> map_option originConnection (map_of (triggerRecords (router echo_in_flight)) ''T1'') = Some (Some 2)
   \<and> outbox (handleTriggerResponse echo_in_flight (response_to ''T1'') 1)
       = outbox echo_in_flight @ [(1, Response (response_to ''T1''))]"
proof -
  let ?R = "\<lparr>rec_id = ''T1'',
        originalMessage = trigger_of ''T1'' ''echo'' (Some ''A'') None,
        originConnection = Some 2, rec_pool = Some ''default'', handlers = [''A''],
        created = 3, rec_ttl = 30000, dispatched = Some 3, dispatchedTo = Some ''A'',
        timeoutId = True, completed = False, originAppId = None, origin_app = None\<rparr>"
  have look: "map_of (triggerRecords (router echo_in_flight)) ''T1'' = Some ?R"
    by (simp add: echo_in_flight_router)
  have rr: "routeResponse echo_in_flight ?R (Response (response_to ''T1''))
      = (echo_in_flight\<lparr>outbox := outbox echo_in_flight @ [(1, Response (response_to ''T1''))]\<rparr>, None)"
    by (simp add: routeResponse_def echo_in_flight_rest(1,2)
      two_apps_registry trigger_of_def truthy_def app_isActive_def all_live_def send_def Let_def)
  have id: "in_reply_to (response_to ''T1'') = Some ''T1''" by (simp add: response_to_def)
  have "handleTriggerResponse echo_in_flight (response_to ''T1'') 1
      = cleanupTriggerRecord (bump_successful
          (echo_in_flight\<lparr>outbox := outbox echo_in_flight @ [(1, Response (response_to ''T1''))]\<rparr>)) ''T1''"
    by (simp add: handleTriggerResponse_def id truthy_def look rr Let_def)
  then have "outbox (handleTriggerResponse echo_in_flight (response_to ''T1'') 1)
       = outbox echo_in_flight @ [(1, Response (response_to ''T1''))]"
    by (simp add: cleanupTriggerRecord_def bump_successful_def)
  moreover have "map_of (connections (registry echo_in_flight)) 2 = Some ''B''
   \<and> map_of (connections (registry echo_in_flight)) 1 = Some ''A''"
    by (simp add: echo_in_flight_rest two_apps_registry)
  ultimately show ?thesis using look by simp
qed

section \<open>Properties of rehydration\<close>




















subsection \<open>A store that keeps an earlier row\<close>








subsection \<open>The rehydration law\<close>





end
